theory Spec2Isabelle
  imports Main
begin

section \<open>Room handlers of synapse/handlers/room.py\<close>

text \<open>
  The handlers of \<^verbatim>\<open>synapse/handlers/room.py\<close> own no data of their own: every step is
  a call to a collaborator (storage, authorization, state reconciliation, federation,
  the notifier, the room lock). The model keeps the collaborators as parameters: each
  one is a function on an abstract collaborator state \<open>'s\<close> that either raises (\<open>Inl\<close>)
  or returns (\<open>Inr\<close>). A handler is a function on a world: the collaborator state
  together with the trace of calls the handler has made so far, in order. What a handler
  "does" is read from the trace.
\<close>

subsection \<open>Values, errors, events\<close>

text \<open>JSON values held in an event's content: strings and integers.\<close>

datatype jv = JStr string | JInt int

type_synonym content = "(string \<times> jv) list"

text \<open>
  The exceptions of the source: \<^verbatim>\<open>RoomError(code, msg)\<close>, \<^verbatim>\<open>StoreError(code, msg)\<close>,
  the error of a failed authorization check, the \<^verbatim>\<open>KeyError\<close> of a dictionary read,
  and any other exception a collaborator raises.
\<close>

datatype error =
    RoomError nat string
  | StoreError nat string
  | AuthError nat string
  | KeyError string
  | OtherError string

text \<open>
  Modelled from the spec: the \<^verbatim>\<open>TYPE\<close> tags of the event classes of
  \<^verbatim>\<open>synapse.api.events.room\<close> (room topic, message, invite-join request, room member),
  which are not part of this file; pairwise distinct tags, and any other tag.
\<close>

datatype event_type =
    RoomTopicEvent_TYPE
  | MessageEvent_TYPE
  | InviteJoinEvent_TYPE
  | RoomMemberEvent_TYPE
  | OtherEvent_TYPE string

text \<open>
  Modelled from the spec: the membership constants of \<^verbatim>\<open>synapse.api.constants.Membership\<close>
  ("membership state in none, invite, join, leave").
\<close>

definition Membership_INVITE :: string where "Membership_INVITE = ''invite''"
definition Membership_JOIN :: string where "Membership_JOIN = ''join''"
definition Membership_LEAVE :: string where "Membership_LEAVE = ''leave''"

text \<open>
  The event envelope. Attributes an event may lack (\<^verbatim>\<open>target_user_id\<close>,
  \<^verbatim>\<open>membership\<close>, \<^verbatim>\<open>msg_id\<close>) are options; \<^verbatim>\<open>destinations\<close> is the list the handler
  assigns before the federation hand-off.
\<close>

record event =
  ev_type :: event_type
  ev_room_id :: string
  ev_user_id :: string
  ev_target_user_id :: "string option"
  ev_membership :: "string option"
  ev_msg_id :: "string option"
  ev_content :: content
  ev_destinations :: "string list"

text \<open>
  Modelled from the spec: \<^verbatim>\<open>event_factory.create_event\<close> ("createEvent(type, roomId,
  userId, targetUserId?, content) -> Event"), which builds the envelope from its keyword
  arguments and leaves the destinations empty.
\<close>

definition create_event ::
  "event_type \<Rightarrow> string \<Rightarrow> string \<Rightarrow> string option \<Rightarrow> string option \<Rightarrow> string option
     \<Rightarrow> content \<Rightarrow> event" where
  "create_event etype room_id user_id target_user_id membership msg_id content =
     \<lparr>ev_type = etype, ev_room_id = room_id, ev_user_id = user_id,
      ev_target_user_id = target_user_id, ev_membership = membership,
      ev_msg_id = msg_id, ev_content = content, ev_destinations = []\<rparr>"

text \<open>Stored rows, as far as the handlers read them.\<close>

record room =
  is_public :: bool
  room_creator :: string

record room_member =
  membership :: string
  sender :: string

text \<open>
  A parsed user identifier. Modelled from the spec: \<^verbatim>\<open>is_mine\<close> of
  \<^verbatim>\<open>synapse.types.UserID\<close> holds when the identifier's domain is this server's own
  host name ("the inviter's home server differs from this server").
\<close>

record user_id =
  localpart :: string
  domain :: string

subsection \<open>Python's string formatting of integers\<close>

definition digit :: "nat \<Rightarrow> char" where
  "digit n = ''0123456789'' ! (n mod 10)"

function str_of_nat :: "nat \<Rightarrow> string" where
  "str_of_nat n = (if n < 10 then [digit n] else str_of_nat (n div 10) @ [digit n])"
  by pat_completeness auto
termination
  by (relation "measure id") auto

definition str_of_int :: "int \<Rightarrow> string" where
  "str_of_int i = (if i < 0 then CHR ''-'' # str_of_nat (nat (- i)) else str_of_nat (nat i))"

text \<open>\<^verbatim>\<open>"%s" % v\<close> for a content value.\<close>

fun py_str :: "jv \<Rightarrow> string" where
  "py_str (JStr s) = s"
| "py_str (JInt i) = str_of_int i"

subsection \<open>Collaborators, the trace, the world\<close>

text \<open>Every call a handler makes to a collaborator, with its arguments.\<close>

datatype action =
    Lock string
  | Unlock string
  | AuthCheck event
  | PersistEvent event
  | GetJoinedHostsForRoom string
  | FederationHandleNewEvent event
  | FederationGetStateForRoom string string
  | NotifierOnNewEvent event nat
  | StateHandleNewEvent event
  | StoreRoomMember "string option" string string content jv
  | GetRoomMember "string option" string
  | GetRoom string
  | StoreRoom string string bool
  | GetPathData string
  | RandomString nat

text \<open>
  The collaborators reached through \<^verbatim>\<open>self.hs\<close>, \<^verbatim>\<open>self.store\<close>, \<^verbatim>\<open>self.auth\<close>,
  \<^verbatim>\<open>self.notifier\<close>, \<^verbatim>\<open>self.state_handler\<close>, and the modules \<^verbatim>\<open>stringutils\<close> and
  \<^verbatim>\<open>time\<close>. None of them is defined in this file, so each is a parameter.
  \<open>time_ms\<close> stands for \<^verbatim>\<open>int(time.time() * 1000)\<close>.
\<close>

record 's collaborators =
  hostname :: string
  UserID_from_string :: "string option \<Rightarrow> error + user_id"
  UserID_to_string :: "user_id \<Rightarrow> string"
  UserID_str :: "user_id \<Rightarrow> string"
  c_auth_check :: "event \<Rightarrow> 's \<Rightarrow> (error + unit) \<times> 's"
  c_persist_event :: "event \<Rightarrow> 's \<Rightarrow> (error + nat) \<times> 's"
  c_get_joined_hosts_for_room :: "string \<Rightarrow> 's \<Rightarrow> (error + string list) \<times> 's"
  c_federation_handle_new_event :: "event \<Rightarrow> 's \<Rightarrow> (error + unit) \<times> 's"
  c_federation_get_state_for_room :: "string \<Rightarrow> string \<Rightarrow> 's \<Rightarrow> (error + unit) \<times> 's"
  c_notifier_on_new_event :: "event \<Rightarrow> nat \<Rightarrow> 's \<Rightarrow> (error + unit) \<times> 's"
  c_state_handle_new_event :: "event \<Rightarrow> 's \<Rightarrow> (error + unit) \<times> 's"
  c_store_room_member ::
    "string option \<Rightarrow> string \<Rightarrow> string \<Rightarrow> content \<Rightarrow> jv \<Rightarrow> 's \<Rightarrow> (error + nat) \<times> 's"
  c_get_room_member :: "string option \<Rightarrow> string \<Rightarrow> 's \<Rightarrow> (error + room_member option) \<times> 's"
  c_get_room :: "string \<Rightarrow> 's \<Rightarrow> (error + room option) \<times> 's"
  c_store_room :: "string \<Rightarrow> string \<Rightarrow> bool \<Rightarrow> 's \<Rightarrow> (error + unit) \<times> 's"
  c_get_path_data :: "string \<Rightarrow> 's \<Rightarrow> (error + string option) \<times> 's"
  c_random_string :: "nat \<Rightarrow> 's \<Rightarrow> (error + string) \<times> 's"
  time_ms :: "'s \<Rightarrow> int \<times> 's"

definition is_mine :: "'s collaborators \<Rightarrow> user_id \<Rightarrow> bool" where
  "is_mine hs u = (domain u = hostname hs)"

record 's world =
  st :: 's
  trace :: "action list"

type_synonym ('s, 'a) handler = "'s world \<Rightarrow> (error + 'a) \<times> 's world"

text \<open>Sequencing: an exception of the first step skips the rest.\<close>

definition and_then :: "('s, 'a) handler \<Rightarrow> ('a \<Rightarrow> ('s, 'b) handler) \<Rightarrow> ('s, 'b) handler" where
  "and_then m k w = (case m w of (Inl e, w') \<Rightarrow> (Inl e, w') | (Inr x, w') \<Rightarrow> k x w')"

definition succeed :: "'a \<Rightarrow> ('s, 'a) handler" where
  "succeed x w = (Inr x, w)"

definition raise :: "error \<Rightarrow> ('s, 'a) handler" where
  "raise e w = (Inl e, w)"

text \<open>One collaborator call: the call is appended to the trace, the collaborator runs.\<close>

definition call :: "action \<Rightarrow> ('s \<Rightarrow> (error + 'a) \<times> 's) \<Rightarrow> ('s, 'a) handler" where
  "call a f w = (case f (st w) of (r, s') \<Rightarrow> (r, \<lparr>st = s', trace = trace w @ [a]\<rparr>))"

text \<open>
  Modelled from the spec: \<^verbatim>\<open>with (yield self.room_lock.lock(room_id)):\<close>. The lock is
  not defined in this file; by the spec it is "released on every exit path (normal
  return or error)" and the error propagates.
\<close>

definition with_lock :: "string \<Rightarrow> ('s, 'a) handler \<Rightarrow> ('s, 'a) handler" where
  "with_lock room_id body w =
     (case body (w\<lparr>trace := trace w @ [Lock room_id]\<rparr>) of
        (r, w') \<Rightarrow> (r, w'\<lparr>trace := trace w' @ [Unlock room_id]\<rparr>))"

definition auth_check :: "'s collaborators \<Rightarrow> event \<Rightarrow> ('s, unit) handler" where
  "auth_check hs event = call (AuthCheck event) (c_auth_check hs event)"

definition persist_event :: "'s collaborators \<Rightarrow> event \<Rightarrow> ('s, nat) handler" where
  "persist_event hs event = call (PersistEvent event) (c_persist_event hs event)"

definition get_joined_hosts_for_room :: "'s collaborators \<Rightarrow> string \<Rightarrow> ('s, string list) handler" where
  "get_joined_hosts_for_room hs room_id =
     call (GetJoinedHostsForRoom room_id) (c_get_joined_hosts_for_room hs room_id)"

definition federation_handle_new_event :: "'s collaborators \<Rightarrow> event \<Rightarrow> ('s, unit) handler" where
  "federation_handle_new_event hs event =
     call (FederationHandleNewEvent event) (c_federation_handle_new_event hs event)"

definition federation_get_state_for_room ::
  "'s collaborators \<Rightarrow> string \<Rightarrow> string \<Rightarrow> ('s, unit) handler" where
  "federation_get_state_for_room hs host room_id =
     call (FederationGetStateForRoom host room_id) (c_federation_get_state_for_room hs host room_id)"

definition notifier_on_new_event :: "'s collaborators \<Rightarrow> event \<Rightarrow> nat \<Rightarrow> ('s, unit) handler" where
  "notifier_on_new_event hs event store_id =
     call (NotifierOnNewEvent event store_id) (c_notifier_on_new_event hs event store_id)"

definition state_handler_handle_new_event :: "'s collaborators \<Rightarrow> event \<Rightarrow> ('s, unit) handler" where
  "state_handler_handle_new_event hs event =
     call (StateHandleNewEvent event) (c_state_handle_new_event hs event)"

definition store_room_member ::
  "'s collaborators \<Rightarrow> string option \<Rightarrow> string \<Rightarrow> string \<Rightarrow> content \<Rightarrow> jv \<Rightarrow> ('s, nat) handler" where
  "store_room_member hs user sender_id room_id content m =
     call (StoreRoomMember user sender_id room_id content m)
       (c_store_room_member hs user sender_id room_id content m)"

definition get_room_member ::
  "'s collaborators \<Rightarrow> string option \<Rightarrow> string \<Rightarrow> ('s, room_member option) handler" where
  "get_room_member hs user room_id =
     call (GetRoomMember user room_id) (c_get_room_member hs user room_id)"

definition get_room :: "'s collaborators \<Rightarrow> string \<Rightarrow> ('s, room option) handler" where
  "get_room hs room_id = call (GetRoom room_id) (c_get_room hs room_id)"

definition store_room :: "'s collaborators \<Rightarrow> string \<Rightarrow> string \<Rightarrow> bool \<Rightarrow> ('s, unit) handler" where
  "store_room hs room_id creator pub = call (StoreRoom room_id creator pub) (c_store_room hs room_id creator pub)"

definition get_path_data :: "'s collaborators \<Rightarrow> string \<Rightarrow> ('s, string option) handler" where
  "get_path_data hs path = call (GetPathData path) (c_get_path_data hs path)"

definition random_string :: "'s collaborators \<Rightarrow> nat \<Rightarrow> ('s, string) handler" where
  "random_string hs n = call (RandomString n) (c_random_string hs n)"

text \<open>Reading the clock changes the collaborator state only; it is not traced.\<close>

definition now_ms :: "'s collaborators \<Rightarrow> ('s, int) handler" where
  "now_ms hs w = (case time_ms hs (st w) of (t, s') \<Rightarrow> (Inr t, w\<lparr>st := s'\<rparr>))"

subsection \<open>MessageHandler\<close>

text \<open>\<^verbatim>\<open>stamp(event)\<close>: \<^verbatim>\<open>event.content["hsob_ts"] = int(time.time() * 1000)\<close>.\<close>

definition dict_set :: "string \<Rightarrow> jv \<Rightarrow> content \<Rightarrow> content" where
  "dict_set k v c = (if k \<in> fst ` set c then map (\<lambda>(k', v'). if k' = k then (k', v) else (k', v')) c
                     else c @ [(k, v)])"

definition dict_get :: "content \<Rightarrow> string \<Rightarrow> ('s, jv) handler" where
  "dict_get c k = (case map_of c k of None \<Rightarrow> raise (KeyError k) | Some v \<Rightarrow> succeed v)"

definition stamp :: "'s collaborators \<Rightarrow> event \<Rightarrow> ('s, event) handler" where
  "stamp hs event =
     and_then (now_ms hs) (\<lambda>t.
       succeed (event\<lparr>ev_content := dict_set ''hsob_ts'' (JInt t) (ev_content event)\<rparr>))"

text \<open>
  The source mutates the event it was given; the model returns the event as it is when
  the handler returns.
\<close>

definition send_message :: "'s collaborators \<Rightarrow> event \<Rightarrow> bool \<Rightarrow> bool \<Rightarrow> ('s, event) handler" where
  "send_message hs event0 suppress_auth stamp_event =
     and_then (if stamp_event then stamp hs event0 else succeed event0) (\<lambda>event.
     with_lock (ev_room_id event)
       (and_then (if \<not> suppress_auth then auth_check hs event else succeed ()) (\<lambda>_.
        and_then (persist_event hs event) (\<lambda>store_id.
        and_then (get_joined_hosts_for_room hs (ev_room_id event)) (\<lambda>hosts.
        and_then (federation_handle_new_event hs (event\<lparr>ev_destinations := hosts\<rparr>)) (\<lambda>_.
        and_then (notifier_on_new_event hs (event\<lparr>ev_destinations := hosts\<rparr>) store_id) (\<lambda>_.
        succeed (event\<lparr>ev_destinations := hosts\<rparr>))))))))"

definition send_feedback :: "'s collaborators \<Rightarrow> event \<Rightarrow> bool \<Rightarrow> ('s, event) handler" where
  "send_feedback hs event0 stamp_event =
     and_then (if stamp_event then stamp hs event0 else succeed event0) (\<lambda>event.
     and_then
       (with_lock (ev_room_id event)
         (and_then (auth_check hs event) (\<lambda>_.
          and_then (persist_event hs event) (\<lambda>store_id.
          and_then (get_joined_hosts_for_room hs (ev_room_id event)) (\<lambda>hosts.
          succeed (store_id, event\<lparr>ev_destinations := hosts\<rparr>))))))
       (\<lambda>(store_id, event').
     and_then (federation_handle_new_event hs event') (\<lambda>_.
     and_then (notifier_on_new_event hs event' store_id) (\<lambda>_.
     succeed event'))))"

text \<open>The default arguments of \<^verbatim>\<open>get_room_path_data\<close>.\<close>

definition default_public_room_rules :: "string list" where
  "default_public_room_rules = []"

definition default_private_room_rules :: "string list" where
  "default_private_room_rules = [''join'']"

definition get_room_path_data ::
  "'s collaborators \<Rightarrow> string option \<Rightarrow> string \<Rightarrow> string \<Rightarrow> event_type option
     \<Rightarrow> string list \<Rightarrow> string list \<Rightarrow> ('s, string option) handler" where
  "get_room_path_data hs user_id room_id path event_type public_room_rules private_room_rules0 =
     (let private_room_rules =
            (if event_type = Some RoomTopicEvent_TYPE then [''invite'', ''join'']
             else private_room_rules0)
      in
      and_then (get_room hs room_id) (\<lambda>room.
      case room of
        None \<Rightarrow> raise (RoomError 403 ''Room does not exist.'')
      | Some room \<Rightarrow>
          and_then (get_room_member hs
                      (Some (case user_id of None \<Rightarrow> [] | Some u \<Rightarrow> u)) room_id) (\<lambda>member.
          let member_state = map_option membership member in
          if is_public room \<and> public_room_rules \<noteq> [] then
            (if member_state \<notin> set (map Some public_room_rules)
             then raise (RoomError 403 ''Member does not meet public room rules.'')
             else get_path_data hs path)
          else if \<not> is_public room \<and> private_room_rules \<noteq> [] then
            (if member_state \<notin> set (map Some private_room_rules)
             then raise (RoomError 403 ''Member does not meet private room rules.'')
             else get_path_data hs path)
          else get_path_data hs path)))"

subsection \<open>RoomMemberHandler\<close>

text \<open>\<^verbatim>\<open>"%s" % x\<close> for an attribute that may be \<^verbatim>\<open>None\<close>.\<close>

definition str_opt :: "string option \<Rightarrow> string" where
  "str_opt x = (case x of None \<Rightarrow> ''None'' | Some s \<Rightarrow> s)"

definition from_string :: "'s collaborators \<Rightarrow> string option \<Rightarrow> ('s, user_id) handler" where
  "from_string hs s = (case UserID_from_string hs s of Inl e \<Rightarrow> raise e | Inr u \<Rightarrow> succeed u)"

definition membership_msg_body :: "string \<Rightarrow> string option \<Rightarrow> jv \<Rightarrow> ('s, string) handler" where
  "membership_msg_body source target m =
     (if m = JStr Membership_INVITE then
        succeed (source @ '' invited '' @ str_opt target @ '' to the room.'')
      else if m = JStr Membership_JOIN then
        succeed (str_opt target @ '' joined the room.'')
      else if m = JStr Membership_LEAVE then
        succeed (str_opt target @ '' left the room.'')
      else raise (RoomError 500 (''Unknown membership value '' @ py_str m)))"

definition inject_membership_msg ::
  "'s collaborators \<Rightarrow> string \<Rightarrow> string \<Rightarrow> string option \<Rightarrow> jv \<Rightarrow> ('s, unit) handler" where
  "inject_membership_msg hs room_id source target m =
     and_then (membership_msg_body source target m) (\<lambda>body.
     and_then (now_ms hs) (\<lambda>t.
     and_then
       (send_message hs
          (create_event MessageEvent_TYPE room_id ''_homeserver_'' None None
             (Some (CHR ''m'' # str_of_int t))
             [(''msgtype'', JStr ''sy.text''), (''body'', JStr body)])
          True True)
       (\<lambda>_. succeed ())))"

text \<open>
  \<^verbatim>\<open>_do_membership_update\<close>, the closure of \<^verbatim>\<open>change_membership\<close>. Python's
  \<^verbatim>\<open>list(set(destinations))\<close> keeps each host once, in no specified order; the model
  keeps the order of \<open>remdups\<close>, and only the set of hosts is meaningful.
\<close>

definition add_target_host ::
  "'s collaborators \<Rightarrow> event \<Rightarrow> bool \<Rightarrow> string list \<Rightarrow> ('s, string list) handler" where
  "add_target_host hs event cond destinations =
     (if cond then
        and_then (from_string hs (ev_target_user_id event)) (\<lambda>u.
          succeed (destinations @ [domain u]))
      else succeed destinations)"

definition do_membership_update :: "'s collaborators \<Rightarrow> event \<Rightarrow> ('s, nat \<times> event) handler" where
  "do_membership_update hs event =
     and_then (dict_get (ev_content event) ''membership'') (\<lambda>m.
     and_then (store_room_member hs (ev_target_user_id event) (ev_user_id event)
                 (ev_room_id event) (ev_content event) m) (\<lambda>store_id.
     and_then (get_joined_hosts_for_room hs (ev_room_id event)) (\<lambda>destinations.
     and_then (add_target_host hs event (m = JStr Membership_INVITE) destinations) (\<lambda>destinations.
     and_then (add_target_host hs event (m = JStr Membership_JOIN) destinations) (\<lambda>destinations.
     succeed (store_id, event\<lparr>ev_destinations := remdups destinations\<rparr>))))))"

text \<open>
  What the locked section of the JOIN branch leaves for the code after the lock:
  \<^verbatim>\<open>is_remote_invite_join\<close> false with \<^verbatim>\<open>store_id\<close> and the updated event, or true
  with \<^verbatim>\<open>inviter\<close>.
\<close>

datatype join_decision = NormalJoin nat event | RemoteInviteJoin user_id

definition is_remote_invite_join ::
  "'s collaborators \<Rightarrow> event \<Rightarrow> room_member option \<Rightarrow> ('s, user_id option) handler" where
  "is_remote_invite_join hs event prev_state =
     (case prev_state of
        None \<Rightarrow> succeed None
      | Some p \<Rightarrow>
          if membership p = Membership_INVITE then
            and_then (get_room hs (ev_room_id event)) (\<lambda>room.
            and_then (from_string hs (Some (sender p))) (\<lambda>inviter.
            succeed (if \<not> is_mine hs inviter \<and> room = None then Some inviter else None)))
          else succeed None)"

definition join_locked :: "'s collaborators \<Rightarrow> event \<Rightarrow> bool \<Rightarrow> ('s, join_decision) handler" where
  "join_locked hs event do_auth =
     with_lock (ev_room_id event)
       (and_then (if do_auth then auth_check hs event else succeed ()) (\<lambda>_.
        and_then (get_room_member hs (ev_target_user_id event) (ev_room_id event)) (\<lambda>prev_state.
        and_then (is_remote_invite_join hs event prev_state) (\<lambda>dance.
        case dance of
          None \<Rightarrow>
            and_then (state_handler_handle_new_event hs event) (\<lambda>_.
            and_then (do_membership_update hs event) (\<lambda>(store_id, event').
            succeed (NormalJoin store_id event')))
        | Some inviter \<Rightarrow> succeed (RemoteInviteJoin inviter)))))"

text \<open>\<^verbatim>\<open>new_event\<close> of the dance, with its destinations assigned.\<close>

definition invite_join_event :: "'s collaborators \<Rightarrow> event \<Rightarrow> user_id \<Rightarrow> event" where
  "invite_join_event hs event inviter =
     (create_event InviteJoinEvent_TYPE (ev_room_id event) (ev_user_id event)
        (Some (UserID_to_string hs inviter)) None None [])
     \<lparr>ev_destinations := [domain inviter]\<rparr>"

definition remote_join_dance :: "'s collaborators \<Rightarrow> event \<Rightarrow> user_id \<Rightarrow> ('s, event) handler" where
  "remote_join_dance hs event inviter =
     and_then (store_room hs (ev_room_id event) (UserID_str hs inviter) False) (\<lambda>_.
     and_then (federation_handle_new_event hs (invite_join_event hs event inviter)) (\<lambda>_.
     and_then (federation_get_state_for_room hs (domain inviter) (ev_room_id event)) (\<lambda>_.
     succeed event)))"

definition join_branch :: "'s collaborators \<Rightarrow> event \<Rightarrow> bool \<Rightarrow> ('s, event) handler" where
  "join_branch hs event do_auth =
     and_then (join_locked hs event do_auth) (\<lambda>d.
     case d of
       NormalJoin store_id event' \<Rightarrow>
         and_then (federation_handle_new_event hs event') (\<lambda>_.
         and_then (notifier_on_new_event hs event' store_id) (\<lambda>_.
         succeed event'))
     | RemoteInviteJoin inviter \<Rightarrow> remote_join_dance hs event inviter)"

definition other_branch :: "'s collaborators \<Rightarrow> event \<Rightarrow> bool \<Rightarrow> ('s, event) handler" where
  "other_branch hs event do_auth =
     and_then
       (with_lock (ev_room_id event)
          (and_then (if do_auth then auth_check hs event else succeed ()) (\<lambda>_.
           and_then (state_handler_handle_new_event hs event) (\<lambda>_.
           do_membership_update hs event))))
       (\<lambda>(store_id, event').
     and_then (federation_handle_new_event hs event') (\<lambda>_.
     and_then (notifier_on_new_event hs event' store_id) (\<lambda>_.
     succeed event')))"

text \<open>\<^verbatim>\<open>change_membership\<close> up to the test of \<^verbatim>\<open>broadcast_msg\<close>.\<close>

definition membership_branch :: "'s collaborators \<Rightarrow> event \<Rightarrow> bool \<Rightarrow> ('s, event) handler" where
  "membership_branch hs event do_auth =
     (if ev_membership event = Some Membership_JOIN then join_branch hs event do_auth
      else other_branch hs event do_auth)"

definition change_membership :: "'s collaborators \<Rightarrow> event \<Rightarrow> bool \<Rightarrow> bool \<Rightarrow> ('s, event) handler" where
  "change_membership hs event broadcast_msg do_auth =
     and_then (membership_branch hs event do_auth) (\<lambda>event'.
     if broadcast_msg then
       and_then (dict_get (ev_content event') ''membership'') (\<lambda>m.
       and_then (inject_membership_msg hs (ev_room_id event') (ev_user_id event')
                   (ev_target_user_id event') m) (\<lambda>_.
       succeed event'))
     else succeed event')"

subsection \<open>RoomCreationHandler\<close>

text \<open>\<^verbatim>\<open>config["visibility"] == "public"\<close>.\<close>

definition visibility_is_public :: "content \<Rightarrow> ('s, bool) handler" where
  "visibility_is_public config =
     and_then (dict_get config ''visibility'') (\<lambda>v. succeed (v = JStr ''public''))"

text \<open>The body of the \<^verbatim>\<open>try\<close> of the allocation loop, up to \<^verbatim>\<open>room_id = gen_room_id\<close>.\<close>

definition try_gen_room_id :: "'s collaborators \<Rightarrow> string \<Rightarrow> content \<Rightarrow> ('s, string) handler" where
  "try_gen_room_id hs user content_config =
     and_then (random_string hs 18) (\<lambda>gen_room_id.
     and_then (visibility_is_public content_config) (\<lambda>pub.
     and_then (store_room hs gen_room_id user pub) (\<lambda>_.
     succeed gen_room_id)))"

text \<open>
  \<^verbatim>\<open>while attempts < 5\<close>: a stored identifier breaks out of the loop, a \<^verbatim>\<open>StoreError\<close>
  counts one attempt, any other exception leaves the function. The result is the
  \<^verbatim>\<open>room_id\<close> variable after the loop.
\<close>

function create_room_loop ::
  "'s collaborators \<Rightarrow> string \<Rightarrow> content \<Rightarrow> nat \<Rightarrow> ('s, string option) handler" where
  "create_room_loop hs user config attempts w =
     (if attempts < 5 then
        (case try_gen_room_id hs user config w of
           (Inr gen_room_id, w') \<Rightarrow> (Inr (Some gen_room_id), w')
         | (Inl (StoreError c m), w') \<Rightarrow> create_room_loop hs user config (attempts + 1) w'
         | (Inl e, w') \<Rightarrow> (Inl e, w'))
      else (Inr None, w))"
  by pat_completeness auto
termination
  by (relation "measure (\<lambda>(hs, user, config, attempts, w). 5 - attempts)") auto

text \<open>The creator's JOIN event that \<^verbatim>\<open>create_room\<close> builds for a room identifier.\<close>

definition join_event :: "string \<Rightarrow> string \<Rightarrow> event" where
  "join_event room_id user =
     create_event RoomMemberEvent_TYPE room_id user (Some user) (Some Membership_JOIN) None
       [(''membership'', JStr Membership_JOIN)]"

definition create_room ::
  "'s collaborators \<Rightarrow> string \<Rightarrow> string option \<Rightarrow> content \<Rightarrow> ('s, string) handler" where
  "create_room hs user room_id0 config =
     and_then
       (case room_id0 of
          Some (c # cs) \<Rightarrow>
            and_then (visibility_is_public config) (\<lambda>pub.
            and_then (store_room hs (c # cs) user pub) (\<lambda>_.
            succeed (c # cs)))
        | _ \<Rightarrow>
            and_then (create_room_loop hs user config 0) (\<lambda>room_id.
            case room_id of
              Some (c # cs) \<Rightarrow> succeed (c # cs)
            | _ \<Rightarrow> raise (StoreError 500 ''Couldn't generate a room ID.'')))
       (\<lambda>room_id.
     and_then (change_membership hs (join_event room_id user) True False) (\<lambda>_.
     succeed room_id))"

subsection \<open>Reading a trace\<close>

text \<open>The calls a handler added to the trace between two worlds.\<close>

definition new_calls :: "'s world \<Rightarrow> 's world \<Rightarrow> action list" where
  "new_calls w w' = drop (length (trace w)) (trace w')"

fun is_store_room_member :: "action \<Rightarrow> bool" where
  "is_store_room_member (StoreRoomMember u s r c m) = True"
| "is_store_room_member _ = False"

fun is_join_request :: "action \<Rightarrow> bool" where
  "is_join_request (FederationHandleNewEvent e) = (ev_type e = InviteJoinEvent_TYPE)"
| "is_join_request _ = False"

fun is_state_fetch :: "action \<Rightarrow> bool" where
  "is_state_fetch (FederationGetStateForRoom h r) = True"
| "is_state_fetch _ = False"

fun is_federation_send :: "action \<Rightarrow> bool" where
  "is_federation_send (FederationHandleNewEvent e) = True"
| "is_federation_send _ = False"

fun is_auth_check :: "action \<Rightarrow> bool" where
  "is_auth_check (AuthCheck e) = True"
| "is_auth_check _ = False"

fun is_random_string :: "action \<Rightarrow> bool" where
  "is_random_string (RandomString n) = True"
| "is_random_string _ = False"

text \<open>
  The world after \<open>n\<close> consecutive passes through the allocation loop's \<^verbatim>\<open>try\<close> that
  each ended in a \<^verbatim>\<open>StoreError\<close>; \<open>None\<close> when one of them ended otherwise.
\<close>

fun failed_attempts ::
  "'s collaborators \<Rightarrow> string \<Rightarrow> content \<Rightarrow> nat \<Rightarrow> 's world \<Rightarrow> 's world option" where
  "failed_attempts hs user config 0 w = Some w"
| "failed_attempts hs user config (Suc n) w =
     (case try_gen_room_id hs user config w of
        (Inl (StoreError c m), w') \<Rightarrow> failed_attempts hs user config n w'
      | _ \<Rightarrow> None)"

subsection \<open>A test double for the collaborators\<close>

text \<open>
  A small in-memory home server named \<open>red\<close>, used to run the handlers on concrete
  inputs. Its state counts the rows stored so far. The store answers every membership
  read with \<open>prev\<close> and every room read with \<open>rm\<close>, authorization passes when
  \<open>auth_ok\<close>, and \<^verbatim>\<open>store_room\<close> reports a collision while fewer than \<open>collisions\<close>
  rows have been offered.
\<close>

definition parse_user_id :: "string option \<Rightarrow> error + user_id" where
  "parse_user_id s =
     (case s of
        None \<Rightarrow> Inl (OtherError ''not a user id'')
      | Some x \<Rightarrow>
          if CHR '':'' \<in> set x
          then Inr \<lparr>localpart = takeWhile (\<lambda>c. c \<noteq> CHR '':'') x,
                    domain = tl (dropWhile (\<lambda>c. c \<noteq> CHR '':'') x)\<rparr>
          else Inl (OtherError ''not a user id''))"

definition test_hs :: "room_member option \<Rightarrow> room option \<Rightarrow> bool \<Rightarrow> nat \<Rightarrow> nat collaborators" where
  "test_hs prev rm auth_ok collisions =
     \<lparr>hostname = ''red'',
      UserID_from_string = parse_user_id,
      UserID_to_string = (\<lambda>u. localpart u @ '':'' @ domain u),
      UserID_str = (\<lambda>u. localpart u @ '':'' @ domain u),
      c_auth_check = (\<lambda>e s. (if auth_ok then Inr () else Inl (AuthError 403 ''Forbidden''), s)),
      c_persist_event = (\<lambda>e s. (Inr s, Suc s)),
      c_get_joined_hosts_for_room = (\<lambda>r s. (Inr [''red'', ''blue''], s)),
      c_federation_handle_new_event = (\<lambda>e s. (Inr (), s)),
      c_federation_get_state_for_room = (\<lambda>h r s. (Inr (), s)),
      c_notifier_on_new_event = (\<lambda>e i s. (Inr (), s)),
      c_state_handle_new_event = (\<lambda>e s. (Inr (), s)),
      c_store_room_member = (\<lambda>u sd r c m s. (Inr s, Suc s)),
      c_get_room_member = (\<lambda>u r s. (Inr prev, s)),
      c_get_room = (\<lambda>r s. (Inr rm, s)),
      c_store_room = (\<lambda>r c p s.
         (if s < collisions then Inl (StoreError 409 ''Room ID in use.'') else Inr (), Suc s)),
      c_get_path_data = (\<lambda>p s. (Inr (Some ''data''), s)),
      c_random_string = (\<lambda>n s. (Inr (replicate n (digit s)), s)),
      time_ms = (\<lambda>s. (1000 + int s, s))\<rparr>"

definition w0 :: "nat world" where
  "w0 = \<lparr>st = 0, trace = []\<rparr>"

text \<open>
  The world of the test double after \<open>n\<close> passes through the allocation loop, started
  in \<open>w0\<close> by user \<open>alice:red\<close> for a public room.
\<close>

definition after_attempts :: "nat \<Rightarrow> nat world" where
  "after_attempts n =
     \<lparr>st = n,
      trace = concat (map (\<lambda>i. [RandomString 18,
                                  StoreRoom (replicate 18 (digit i)) ''alice:red'' True]) [0..<n])\<rparr>"

section \<open>Properties\<close>

subsection \<open>Unfolding the handlers\<close>

lemmas hdefs = and_then_def succeed_def raise_def call_def with_lock_def
  auth_check_def persist_event_def get_joined_hosts_for_room_def federation_handle_new_event_def
  federation_get_state_for_room_def notifier_on_new_event_def state_handler_handle_new_event_def
  store_room_member_def get_room_member_def get_room_def store_room_def get_path_data_def
  random_string_def now_ms_def dict_get_def stamp_def from_string_def

lemma stamp_trace: "stamp hs event w = (r, w') \<Longrightarrow> trace w' = trace w"
  by (auto simp: hdefs split: prod.splits)

subsection \<open>A failed authorization check\<close>

text \<open>
  Claim C8. When the authorization check of \<^verbatim>\<open>send_message\<close> (with \<^verbatim>\<open>suppress_auth\<close>
  false) or of \<^verbatim>\<open>change_membership\<close> (with \<^verbatim>\<open>do_auth\<close> true) raises, the handler
  raises that error, and the only calls it has made are taking the room lock, the check
  itself and releasing the lock: nothing is persisted, no membership row is stored, no
  state reconciliation, federation forward or local notification happens. \<open>ev\<close> is the
  event as \<^verbatim>\<open>send_message\<close> checks it, after the optional time stamp.
\<close>

theorem auth_failure_aborts_before_mutation:
  "((if stamp_event then stamp hs event else succeed event) w = (Inr ev, wa)
      \<and> c_auth_check hs ev (st wa) = (Inl e, s1)
    \<longrightarrow> send_message hs event False stamp_event w =
          (Inl e, \<lparr>st = s1, trace = trace w @ [Lock (ev_room_id ev), AuthCheck ev, Unlock (ev_room_id ev)]\<rparr>))
   \<and> (c_auth_check hs mev (st w) = (Inl e', s2)
    \<longrightarrow> change_membership hs mev broadcast_msg True w =
          (Inl e', \<lparr>st = s2, trace = trace w @ [Lock (ev_room_id mev), AuthCheck mev, Unlock (ev_room_id mev)]\<rparr>))"
proof (intro conjI impI)
  assume h: "(if stamp_event then stamp hs event else succeed event) w = (Inr ev, wa)
      \<and> c_auth_check hs ev (st wa) = (Inl e, s1)"
  then have "trace wa = trace w"
    by (auto simp: succeed_def dest: stamp_trace split: if_splits)
  with h show "send_message hs event False stamp_event w =
          (Inl e, \<lparr>st = s1, trace = trace w @ [Lock (ev_room_id ev), AuthCheck ev, Unlock (ev_room_id ev)]\<rparr>)"
    by (simp add: send_message_def and_then_def with_lock_def auth_check_def call_def)
next
  assume "c_auth_check hs mev (st w) = (Inl e', s2)"
  then show "change_membership hs mev broadcast_msg True w =
          (Inl e', \<lparr>st = s2, trace = trace w @ [Lock (ev_room_id mev), AuthCheck mev, Unlock (ev_room_id mev)]\<rparr>)"
    by (simp add: change_membership_def membership_branch_def join_branch_def join_locked_def
        other_branch_def and_then_def with_lock_def auth_check_def call_def)
qed

theorem auth_failure_aborts_before_mutation_witness:
  "(if True then stamp (test_hs None None False 0) (join_event ''r1'' ''alice:red'')
    else succeed (join_event ''r1'' ''alice:red'')) w0
     = (Inr ((join_event ''r1'' ''alice:red'')\<lparr>ev_content := [(''membership'', JStr ''join''), (''hsob_ts'', JInt 1000)]\<rparr>), w0)
   \<and> c_auth_check (test_hs None None False 0)
        ((join_event ''r1'' ''alice:red'')\<lparr>ev_content := [(''membership'', JStr ''join''), (''hsob_ts'', JInt 1000)]\<rparr>) (st w0)
       = (Inl (AuthError 403 ''Forbidden''), 0)
   \<and> send_message (test_hs None None False 0) (join_event ''r1'' ''alice:red'') False True w0 =
       (Inl (AuthError 403 ''Forbidden''),
        \<lparr>st = 0, trace = [Lock ''r1'',
           AuthCheck ((join_event ''r1'' ''alice:red'')\<lparr>ev_content := [(''membership'', JStr ''join''), (''hsob_ts'', JInt 1000)]\<rparr>),
           Unlock ''r1'']\<rparr>)
   \<and> c_auth_check (test_hs None None False 0) (join_event ''r1'' ''alice:red'') (st w0)
       = (Inl (AuthError 403 ''Forbidden''), 0)
   \<and> change_membership (test_hs None None False 0) (join_event ''r1'' ''alice:red'') True True w0 =
       (Inl (AuthError 403 ''Forbidden''),
        \<lparr>st = 0, trace = [Lock ''r1'', AuthCheck (join_event ''r1'' ''alice:red''), Unlock ''r1'']\<rparr>)"
proof -
  let ?hs = "test_hs None None False 0"
  let ?ev = "join_event ''r1'' ''alice:red''"
  let ?ev' = "?ev\<lparr>ev_content := [(''membership'', JStr ''join''), (''hsob_ts'', JInt 1000)]\<rparr>"
  have a: "(if True then stamp ?hs ?ev else succeed ?ev) w0 = (Inr ?ev', w0)"
    by (simp add: hdefs test_hs_def w0_def join_event_def create_event_def dict_set_def Membership_JOIN_def)
  have b: "c_auth_check ?hs ?ev' (st w0) = (Inl (AuthError 403 ''Forbidden''), 0)"
    by (simp add: test_hs_def w0_def)
  have c: "c_auth_check ?hs ?ev (st w0) = (Inl (AuthError 403 ''Forbidden''), 0)"
    by (simp add: test_hs_def w0_def)
  have r: "ev_room_id ?ev' = ''r1''" "ev_room_id ?ev = ''r1''" "trace w0 = []"
    by (simp_all add: join_event_def create_event_def w0_def)
  from auth_failure_aborts_before_mutation
    [of True ?hs ?ev w0 ?ev' w0 "AuthError 403 ''Forbidden''" 0 ?ev "AuthError 403 ''Forbidden''" 0 True]
    a b c r
  show ?thesis by simp
qed

subsection \<open>Forwarding and the room lock\<close>

text \<open>
  Claim C7. In a successful call, \<^verbatim>\<open>send_message\<close> forwards to federation and
  notifies locally before it releases the room lock, and \<^verbatim>\<open>send_feedback\<close> does both
  after releasing it; inside the lock both persist the event and read the joined hosts,
  in that order. \<open>ev\<close> is the event after the optional time stamp.
\<close>

theorem feedback_forwards_after_unlock_message_inside:
  "(send_message hs event suppress_auth stamp_event w = (Inr em, w1) \<longrightarrow>
      (\<exists>ev store_id.
         ev_room_id ev = ev_room_id event \<and> em = ev\<lparr>ev_destinations := ev_destinations em\<rparr> \<and>
         trace w1 = trace w @ [Lock (ev_room_id event)] @ (if suppress_auth then [] else [AuthCheck ev]) @
           [PersistEvent ev, GetJoinedHostsForRoom (ev_room_id event),
            FederationHandleNewEvent em, NotifierOnNewEvent em store_id,
            Unlock (ev_room_id event)]))
   \<and> (send_feedback hs event stamp_event w = (Inr ef, w2) \<longrightarrow>
      (\<exists>ev store_id.
         ev_room_id ev = ev_room_id event \<and> ef = ev\<lparr>ev_destinations := ev_destinations ef\<rparr> \<and>
         trace w2 = trace w @ [Lock (ev_room_id event), AuthCheck ev,
            PersistEvent ev, GetJoinedHostsForRoom (ev_room_id event),
            Unlock (ev_room_id event),
            FederationHandleNewEvent ef, NotifierOnNewEvent ef store_id]))"
proof (intro conjI impI)
  assume "send_message hs event suppress_auth stamp_event w = (Inr em, w1)"
  then show "\<exists>ev store_id.
         ev_room_id ev = ev_room_id event \<and> em = ev\<lparr>ev_destinations := ev_destinations em\<rparr> \<and>
         trace w1 = trace w @ [Lock (ev_room_id event)] @ (if suppress_auth then [] else [AuthCheck ev]) @
           [PersistEvent ev, GetJoinedHostsForRoom (ev_room_id event),
            FederationHandleNewEvent em, NotifierOnNewEvent em store_id,
            Unlock (ev_room_id event)]"
    unfolding send_message_def hdefs
    by (auto split: if_splits prod.splits sum.splits)
next
  assume "send_feedback hs event stamp_event w = (Inr ef, w2)"
  then show "\<exists>ev store_id.
         ev_room_id ev = ev_room_id event \<and> ef = ev\<lparr>ev_destinations := ev_destinations ef\<rparr> \<and>
         trace w2 = trace w @ [Lock (ev_room_id event), AuthCheck ev,
            PersistEvent ev, GetJoinedHostsForRoom (ev_room_id event),
            Unlock (ev_room_id event),
            FederationHandleNewEvent ef, NotifierOnNewEvent ef store_id]"
    unfolding send_feedback_def hdefs
    by (auto split: if_splits prod.splits sum.splits)
qed

theorem feedback_forwards_after_unlock_message_inside_witness:
  "send_message (test_hs None None True 0) (join_event ''r1'' ''alice:red'') False False w0 =
     (Inr ((join_event ''r1'' ''alice:red'')\<lparr>ev_destinations := [''red'', ''blue'']\<rparr>),
      \<lparr>st = 1, trace = [Lock ''r1'', AuthCheck (join_event ''r1'' ''alice:red''),
         PersistEvent (join_event ''r1'' ''alice:red''), GetJoinedHostsForRoom ''r1'',
         FederationHandleNewEvent ((join_event ''r1'' ''alice:red'')\<lparr>ev_destinations := [''red'', ''blue'']\<rparr>),
         NotifierOnNewEvent ((join_event ''r1'' ''alice:red'')\<lparr>ev_destinations := [''red'', ''blue'']\<rparr>) 0,
         Unlock ''r1'']\<rparr>)
   \<and> send_feedback (test_hs None None True 0) (join_event ''r1'' ''alice:red'') False w0 =
     (Inr ((join_event ''r1'' ''alice:red'')\<lparr>ev_destinations := [''red'', ''blue'']\<rparr>),
      \<lparr>st = 1, trace = [Lock ''r1'', AuthCheck (join_event ''r1'' ''alice:red''),
         PersistEvent (join_event ''r1'' ''alice:red''), GetJoinedHostsForRoom ''r1'',
         Unlock ''r1'',
         FederationHandleNewEvent ((join_event ''r1'' ''alice:red'')\<lparr>ev_destinations := [''red'', ''blue'']\<rparr>),
         NotifierOnNewEvent ((join_event ''r1'' ''alice:red'')\<lparr>ev_destinations := [''red'', ''blue'']\<rparr>) 0]\<rparr>)
   \<and> (\<exists>ev store_id.
         trace (snd (send_message (test_hs None None True 0) (join_event ''r1'' ''alice:red'') False False w0)) =
           [Lock ''r1'', AuthCheck ev, PersistEvent ev, GetJoinedHostsForRoom ''r1'',
            FederationHandleNewEvent ((join_event ''r1'' ''alice:red'')\<lparr>ev_destinations := [''red'', ''blue'']\<rparr>),
            NotifierOnNewEvent ((join_event ''r1'' ''alice:red'')\<lparr>ev_destinations := [''red'', ''blue'']\<rparr>) store_id,
            Unlock ''r1''])
   \<and> (\<exists>ev store_id.
         trace (snd (send_feedback (test_hs None None True 0) (join_event ''r1'' ''alice:red'') False w0)) =
           [Lock ''r1'', AuthCheck ev, PersistEvent ev, GetJoinedHostsForRoom ''r1'', Unlock ''r1'',
            FederationHandleNewEvent ((join_event ''r1'' ''alice:red'')\<lparr>ev_destinations := [''red'', ''blue'']\<rparr>),
            NotifierOnNewEvent ((join_event ''r1'' ''alice:red'')\<lparr>ev_destinations := [''red'', ''blue'']\<rparr>) store_id])"
proof -
  let ?hs = "test_hs None None True 0"
  let ?ev = "join_event ''r1'' ''alice:red''"
  let ?ev' = "?ev\<lparr>ev_destinations := [''red'', ''blue'']\<rparr>"
  let ?wm = "\<lparr>st = 1::nat, trace = [Lock ''r1'', AuthCheck ?ev, PersistEvent ?ev, GetJoinedHostsForRoom ''r1'',
         FederationHandleNewEvent ?ev', NotifierOnNewEvent ?ev' 0, Unlock ''r1'']\<rparr>"
  let ?wf = "\<lparr>st = 1::nat, trace = [Lock ''r1'', AuthCheck ?ev, PersistEvent ?ev, GetJoinedHostsForRoom ''r1'',
         Unlock ''r1'', FederationHandleNewEvent ?ev', NotifierOnNewEvent ?ev' 0]\<rparr>"
  have r: "ev_room_id ?ev = ''r1''" "trace w0 = []"
    by (simp_all add: join_event_def create_event_def w0_def)
  have m: "send_message ?hs ?ev False False w0 = (Inr ?ev', ?wm)"
    by (simp add: send_message_def hdefs test_hs_def w0_def r)
  have f: "send_feedback ?hs ?ev False w0 = (Inr ?ev', ?wf)"
    by (simp add: send_feedback_def hdefs test_hs_def w0_def r)
  from feedback_forwards_after_unlock_message_inside
    [of ?hs ?ev False False w0 ?ev' ?wm ?ev' ?wf] m f r
  show ?thesis by simp
qed

subsection \<open>Reading path data\<close>

text \<open>
  Claim C5. In a private room, a read of path data with the room-topic event type is
  decided by the rule set invite, join, whatever \<open>public_rules\<close> and \<open>private_rules\<close>
  the caller supplied: a member whose membership is invite (or join) gets what
  \<^verbatim>\<open>store.get_path_data\<close> returns, and anyone else, a member with membership leave
  among them, is refused with \<^verbatim>\<open>RoomError(403)\<close>. The hypotheses are what the store
  answered: a private room \<open>rm\<close> and the membership row \<open>mo\<close>.
\<close>

theorem get_room_path_data_topic_private:
  assumes "c_get_room hs room_id (st w) = (Inr (Some rm), s1)"
      and "\<not> is_public rm"
      and "c_get_room_member hs (Some (case user of None \<Rightarrow> [] | Some u \<Rightarrow> u)) room_id s1 = (Inr mo, s2)"
      and "w2 = \<lparr>st = s2, trace = trace w @ [GetRoom room_id,
                  GetRoomMember (Some (case user of None \<Rightarrow> [] | Some u \<Rightarrow> u)) room_id]\<rparr>"
  shows "get_room_path_data hs user room_id path (Some RoomTopicEvent_TYPE) public_rules private_rules w =
           (if map_option membership mo \<in> {Some ''invite'', Some ''join''}
            then get_path_data hs path w2
            else (Inl (RoomError 403 ''Member does not meet private room rules.''), w2))
         \<and> (map_option membership mo = Some ''invite'' \<longrightarrow>
              get_room_path_data hs user room_id path (Some RoomTopicEvent_TYPE) public_rules private_rules w =
                get_path_data hs path w2)
         \<and> (map_option membership mo = Some ''leave'' \<longrightarrow>
              get_room_path_data hs user room_id path (Some RoomTopicEvent_TYPE) public_rules private_rules w =
                (Inl (RoomError 403 ''Member does not meet private room rules.''), w2))"
  using assms
  by (auto simp: get_room_path_data_def and_then_def get_room_def get_room_member_def call_def raise_def Let_def)

theorem get_room_path_data_topic_private_witness:
  "get_room_path_data
     (test_hs (Some \<lparr>membership = ''invite'', sender = ''bob:blue''\<rparr>)
        (Some \<lparr>is_public = False, room_creator = ''bob:blue''\<rparr>) True 0)
     (Some ''alice:red'') ''r1'' ''topic'' (Some RoomTopicEvent_TYPE) [] [''join''] w0 =
     (Inr (Some ''data''),
      \<lparr>st = 0, trace = [GetRoom ''r1'', GetRoomMember (Some ''alice:red'') ''r1'', GetPathData ''topic'']\<rparr>)
   \<and> get_room_path_data
     (test_hs (Some \<lparr>membership = ''leave'', sender = ''alice:red''\<rparr>)
        (Some \<lparr>is_public = False, room_creator = ''bob:blue''\<rparr>) True 0)
     (Some ''alice:red'') ''r1'' ''topic'' (Some RoomTopicEvent_TYPE) [] [''leave''] w0 =
     (Inl (RoomError 403 ''Member does not meet private room rules.''),
      \<lparr>st = 0, trace = [GetRoom ''r1'', GetRoomMember (Some ''alice:red'') ''r1'']\<rparr>)"
proof -
  let ?rm = "\<lparr>is_public = False, room_creator = ''bob:blue''\<rparr>"
  let ?mi = "\<lparr>membership = ''invite'', sender = ''bob:blue''\<rparr>"
  let ?ml = "\<lparr>membership = ''leave'', sender = ''alice:red''\<rparr>"
  let ?w2 = "\<lparr>st = 0::nat, trace = [GetRoom ''r1'', GetRoomMember (Some ''alice:red'') ''r1'']\<rparr>"
  have i: "get_room_path_data (test_hs (Some ?mi) (Some ?rm) True 0)
     (Some ''alice:red'') ''r1'' ''topic'' (Some RoomTopicEvent_TYPE) [] [''join''] w0 =
       get_path_data (test_hs (Some ?mi) (Some ?rm) True 0) ''topic'' ?w2"
    using get_room_path_data_topic_private
      [of "test_hs (Some ?mi) (Some ?rm) True 0" "''r1''" w0 ?rm 0 "Some ''alice:red''" "Some ?mi" 0 ?w2
          "''topic''" "[]" "[''join'']"]
    by (simp add: test_hs_def w0_def)
  have l: "get_room_path_data (test_hs (Some ?ml) (Some ?rm) True 0)
     (Some ''alice:red'') ''r1'' ''topic'' (Some RoomTopicEvent_TYPE) [] [''leave''] w0 =
       (Inl (RoomError 403 ''Member does not meet private room rules.''), ?w2)"
    using get_room_path_data_topic_private
      [of "test_hs (Some ?ml) (Some ?rm) True 0" "''r1''" w0 ?rm 0 "Some ''alice:red''" "Some ?ml" 0 ?w2
          "''topic''" "[]" "[''leave'']"]
    by (simp add: test_hs_def w0_def)
  show ?thesis
    unfolding i l by (simp add: get_path_data_def call_def test_hs_def)
qed

text \<open>
  Claim C6 as stated lets an empty \<^verbatim>\<open>private_room_rules\<close> lift the restriction in a
  private room on every call. For the room-topic event type the caller's list is
  replaced first: with an empty list supplied, a member who has left a private room is
  still refused.
\<close>

theorem get_room_path_data_empty_private_rules_counterexample:
  "fst (get_room_path_data
     (test_hs (Some \<lparr>membership = ''leave'', sender = ''alice:red''\<rparr>)
        (Some \<lparr>is_public = False, room_creator = ''bob:blue''\<rparr>) True 0)
     (Some ''alice:red'') ''r1'' ''topic'' (Some RoomTopicEvent_TYPE) [] [] w0)
   = Inl (RoomError 403 ''Member does not meet private room rules.'')"
  by (simp add: get_room_path_data_def hdefs test_hs_def w0_def)

text \<open>
  Claim C6, amended. A room the store does not know is refused with
  \<^verbatim>\<open>RoomError(403, "Room does not exist.")\<close>. Otherwise the applicable rule list is
  \<^verbatim>\<open>public_room_rules\<close> in a public room and, in a private room, invite, join for the
  room-topic event type and the caller's \<^verbatim>\<open>private_room_rules\<close> for any other type.
  The stored path data is read and returned exactly when that list is empty or holds
  the caller's membership state; otherwise the call fails with \<^verbatim>\<open>RoomError(403)\<close> and
  the path data is not read.
\<close>

theorem get_room_path_data_rule_table:
  "(c_get_room hs room_id (st w) = (Inr None, s1) \<longrightarrow>
      get_room_path_data hs user room_id path event_type public_rules private_rules w =
        (Inl (RoomError 403 ''Room does not exist.''), \<lparr>st = s1, trace = trace w @ [GetRoom room_id]\<rparr>))
   \<and> (c_get_room hs room_id (st w) = (Inr (Some rm), s1) \<and>
      c_get_room_member hs (Some (case user of None \<Rightarrow> [] | Some u \<Rightarrow> u)) room_id s1 = (Inr mo, s2) \<and>
      w2 = \<lparr>st = s2, trace = trace w @ [GetRoom room_id,
                  GetRoomMember (Some (case user of None \<Rightarrow> [] | Some u \<Rightarrow> u)) room_id]\<rparr> \<and>
      rules = (if is_public rm then public_rules
               else if event_type = Some RoomTopicEvent_TYPE then [''invite'', ''join'']
               else private_rules) \<longrightarrow>
      get_room_path_data hs user room_id path event_type public_rules private_rules w =
        (if rules = [] \<or> map_option membership mo \<in> Some ` set rules
         then get_path_data hs path w2
         else (Inl (RoomError 403
                 (if is_public rm then ''Member does not meet public room rules.''
                  else ''Member does not meet private room rules.'')), w2)))"
  by (auto simp: get_room_path_data_def and_then_def get_room_def get_room_member_def call_def raise_def Let_def)

theorem get_room_path_data_rule_table_witness:
  "get_room_path_data (test_hs None None True 0)
     (Some ''alice:red'') ''r1'' ''p'' None [] [''join''] w0 =
     (Inl (RoomError 403 ''Room does not exist.''), \<lparr>st = 0, trace = [GetRoom ''r1'']\<rparr>)
   \<and> get_room_path_data
     (test_hs (Some \<lparr>membership = ''join'', sender = ''alice:red''\<rparr>)
        (Some \<lparr>is_public = False, room_creator = ''bob:blue''\<rparr>) True 0)
     (Some ''alice:red'') ''r1'' ''p'' None [] [''join''] w0 =
     (Inr (Some ''data''),
      \<lparr>st = 0, trace = [GetRoom ''r1'', GetRoomMember (Some ''alice:red'') ''r1'', GetPathData ''p'']\<rparr>)"
proof -
  let ?rm = "\<lparr>is_public = False, room_creator = ''bob:blue''\<rparr>"
  let ?mj = "\<lparr>membership = ''join'', sender = ''alice:red''\<rparr>"
  let ?w2 = "\<lparr>st = 0::nat, trace = [GetRoom ''r1'', GetRoomMember (Some ''alice:red'') ''r1'']\<rparr>"
  have a: "get_room_path_data (test_hs None None True 0)
     (Some ''alice:red'') ''r1'' ''p'' None [] [''join''] w0 =
     (Inl (RoomError 403 ''Room does not exist.''), \<lparr>st = 0, trace = [GetRoom ''r1'']\<rparr>)"
    using get_room_path_data_rule_table
      [of "test_hs None None True 0" "''r1''" w0 0 "Some ''alice:red''" "''p''" None "[]" "[''join'']"]
    by (simp add: test_hs_def w0_def)
  have b: "get_room_path_data (test_hs (Some ?mj) (Some ?rm) True 0)
     (Some ''alice:red'') ''r1'' ''p'' None [] [''join''] w0 =
       get_path_data (test_hs (Some ?mj) (Some ?rm) True 0) ''p'' ?w2"
    using get_room_path_data_rule_table
      [where hs = "test_hs (Some ?mj) (Some ?rm) True 0" and room_id = "''r1''" and w = w0 and ?s1.0 = 0
         and user = "Some ''alice:red''" and path = "''p''" and event_type = None
         and public_rules = "[]" and private_rules = "[''join'']" and rm = ?rm
         and mo = "Some ?mj" and ?s2.0 = 0 and ?w2.0 = ?w2 and rules = "[''join'']"]
    by (simp add: test_hs_def w0_def)
  show ?thesis
    unfolding a b by (simp add: get_path_data_def call_def test_hs_def)
qed

subsection \<open>The remote invite-join dance\<close>

text \<open>Calls of the message path and of the membership notice that follows a change.\<close>

lemma send_message_calls:
  assumes "send_message hs e sa se w = (r, w')"
  shows "\<exists>ext. trace w' = trace w @ ext \<and> filter is_store_room_member ext = []
           \<and> filter is_state_fetch ext = []
           \<and> (sa \<longrightarrow> filter is_auth_check ext = [])
           \<and> (ev_type e \<noteq> InviteJoinEvent_TYPE \<longrightarrow> filter is_join_request ext = [])"
  using assms unfolding send_message_def hdefs
  by (auto split: if_splits prod.splits sum.splits)

lemma inject_membership_msg_calls:
  assumes "inject_membership_msg hs room_id source target m w = (r, w')"
  shows "\<exists>ext. trace w' = trace w @ ext \<and> filter is_store_room_member ext = []
           \<and> filter is_state_fetch ext = [] \<and> filter is_auth_check ext = []
           \<and> filter is_join_request ext = []"
proof -
  have ty: "ev_type (create_event MessageEvent_TYPE a b c d f g) \<noteq> InviteJoinEvent_TYPE" for a b c d f g
    by (simp add: create_event_def)
  show ?thesis
    using assms unfolding inject_membership_msg_def membership_msg_body_def
    apply (auto simp: and_then_def succeed_def raise_def now_ms_def split: if_splits prod.splits sum.splits)
    apply (drule send_message_calls, use ty in auto)+
    done
qed

lemma broadcast_calls:
  assumes "membership_branch hs event do_auth w = (r1, w1)"
      and "change_membership hs event broadcast_msg do_auth w = (res, w')"
  shows "\<exists>ext. trace w' = trace w1 @ ext \<and> filter is_store_room_member ext = []
           \<and> filter is_state_fetch ext = [] \<and> filter is_auth_check ext = []
           \<and> filter is_join_request ext = [] \<and> (broadcast_msg \<or> ext = [])"
  using assms unfolding change_membership_def
  by (auto simp: and_then_def succeed_def raise_def dict_get_def
      split: if_splits prod.splits sum.splits option.splits
      dest: inject_membership_msg_calls)

lemma remote_invite_join_branch:
  assumes "ev_membership event = Some Membership_JOIN"
      and "(if do_auth then c_auth_check hs event (st w) else (Inr (), st w)) = (Inr (), s1)"
      and "c_get_room_member hs (ev_target_user_id event) (ev_room_id event) s1 = (Inr (Some p), s2)"
      and "membership p = Membership_INVITE"
      and "c_get_room hs (ev_room_id event) s2 = (Inr None, s3)"
      and "UserID_from_string hs (Some (sender p)) = Inr inviter"
      and "domain inviter \<noteq> hostname hs"
      and "c_store_room hs (ev_room_id event) (UserID_str hs inviter) False s3 = (Inr (), s4)"
      and "c_federation_handle_new_event hs (invite_join_event hs event inviter) s4 = (Inr (), s5)"
      and "c_federation_get_state_for_room hs (domain inviter) (ev_room_id event) s5 = (r6, s6)"
  shows "membership_branch hs event do_auth w =
           ((case r6 of Inl e \<Rightarrow> Inl e | Inr _ \<Rightarrow> Inr event),
            \<lparr>st = s6, trace = trace w @ [Lock (ev_room_id event)] @
               (if do_auth then [AuthCheck event] else []) @
               [GetRoomMember (ev_target_user_id event) (ev_room_id event),
                GetRoom (ev_room_id event),
                Unlock (ev_room_id event),
                StoreRoom (ev_room_id event) (UserID_str hs inviter) False,
                FederationHandleNewEvent (invite_join_event hs event inviter),
                FederationGetStateForRoom (domain inviter) (ev_room_id event)]\<rparr>)"
  using assms
  unfolding membership_branch_def join_branch_def join_locked_def is_remote_invite_join_def
    remote_join_dance_def is_mine_def
  by (auto simp: hdefs split: if_splits sum.splits)

lemma invite_join_event_type: "ev_type (invite_join_event hs event inviter) = InviteJoinEvent_TYPE"
  by (simp add: invite_join_event_def create_event_def)

text \<open>
  Claim C1. A JOIN event whose stored previous membership is invite, whose inviter
  (parsed from the stored sender) has a domain other than this server's host name, and
  whose room the store does not know: granted that the authorization check passes and
  that storing the room record and sending the join request do not raise,
  \<^verbatim>\<open>change_membership\<close> hands federation exactly one invite-join event, whose
  destinations are the inviter's domain alone, asks that domain for the room state
  exactly once, and never calls \<^verbatim>\<open>store_room_member\<close>, with or without the
  membership notice.
\<close>

theorem remote_invite_join_dance_calls:
  assumes "ev_membership event = Some Membership_JOIN"
      and "(if do_auth then c_auth_check hs event (st w) else (Inr (), st w)) = (Inr (), s1)"
      and "c_get_room_member hs (ev_target_user_id event) (ev_room_id event) s1 = (Inr (Some p), s2)"
      and "membership p = Membership_INVITE"
      and "c_get_room hs (ev_room_id event) s2 = (Inr None, s3)"
      and "UserID_from_string hs (Some (sender p)) = Inr inviter"
      and "domain inviter \<noteq> hostname hs"
      and "c_store_room hs (ev_room_id event) (UserID_str hs inviter) False s3 = (Inr (), s4)"
      and "c_federation_handle_new_event hs (invite_join_event hs event inviter) s4 = (Inr (), s5)"
      and "change_membership hs event broadcast_msg do_auth w = (res, w')"
  shows "filter is_join_request (new_calls w w') =
           [FederationHandleNewEvent (invite_join_event hs event inviter)]
         \<and> ev_destinations (invite_join_event hs event inviter) = [domain inviter]
         \<and> filter is_state_fetch (new_calls w w') =
             [FederationGetStateForRoom (domain inviter) (ev_room_id event)]
         \<and> filter is_store_room_member (new_calls w w') = []"
proof -
  obtain r6 s6 where
    f: "c_federation_get_state_for_room hs (domain inviter) (ev_room_id event) s5 = (r6, s6)"
    by (cases "c_federation_get_state_for_room hs (domain inviter) (ev_room_id event) s5")
  note b = remote_invite_join_branch [OF assms(1-9) f]
  from broadcast_calls [OF b assms(10)] obtain ext where
    "trace w' = trace w @ [Lock (ev_room_id event)] @
               (if do_auth then [AuthCheck event] else []) @
               [GetRoomMember (ev_target_user_id event) (ev_room_id event),
                GetRoom (ev_room_id event),
                Unlock (ev_room_id event),
                StoreRoom (ev_room_id event) (UserID_str hs inviter) False,
                FederationHandleNewEvent (invite_join_event hs event inviter),
                FederationGetStateForRoom (domain inviter) (ev_room_id event)] @ ext"
    and "filter is_store_room_member ext = []" and "filter is_state_fetch ext = []"
    and "filter is_join_request ext = []"
    by auto
  then show ?thesis
    by (simp add: new_calls_def invite_join_event_type) (simp add: invite_join_event_def)
qed

text \<open>
  Claim C10. In the dance the calls made between taking and releasing the room lock are
  the authorization check (when \<^verbatim>\<open>do_auth\<close>), the read of the previous membership and
  the room read of the dance decision. The room record (private, created by the
  inviter), the join request and the state fetch all come after the lock is released, in
  that order; \<open>rest\<close> is the membership notice, empty without \<^verbatim>\<open>broadcast_msg\<close>.
\<close>

theorem remote_invite_join_dance_outside_lock:
  assumes "ev_membership event = Some Membership_JOIN"
      and "(if do_auth then c_auth_check hs event (st w) else (Inr (), st w)) = (Inr (), s1)"
      and "c_get_room_member hs (ev_target_user_id event) (ev_room_id event) s1 = (Inr (Some p), s2)"
      and "membership p = Membership_INVITE"
      and "c_get_room hs (ev_room_id event) s2 = (Inr None, s3)"
      and "UserID_from_string hs (Some (sender p)) = Inr inviter"
      and "domain inviter \<noteq> hostname hs"
      and "c_store_room hs (ev_room_id event) (UserID_str hs inviter) False s3 = (Inr (), s4)"
      and "c_federation_handle_new_event hs (invite_join_event hs event inviter) s4 = (Inr (), s5)"
      and "change_membership hs event broadcast_msg do_auth w = (res, w')"
  shows "\<exists>rest. new_calls w w' =
           [Lock (ev_room_id event)] @
           (if do_auth then [AuthCheck event] else []) @
           [GetRoomMember (ev_target_user_id event) (ev_room_id event),
            GetRoom (ev_room_id event),
            Unlock (ev_room_id event),
            StoreRoom (ev_room_id event) (UserID_str hs inviter) False,
            FederationHandleNewEvent (invite_join_event hs event inviter),
            FederationGetStateForRoom (domain inviter) (ev_room_id event)] @ rest
          \<and> (broadcast_msg \<or> rest = [])"
proof -
  obtain r6 s6 where
    f: "c_federation_get_state_for_room hs (domain inviter) (ev_room_id event) s5 = (r6, s6)"
    by (cases "c_federation_get_state_for_room hs (domain inviter) (ev_room_id event) s5")
  note b = remote_invite_join_branch [OF assms(1-9) f]
  from broadcast_calls [OF b assms(10)] obtain ext where
    "trace w' = trace w @ [Lock (ev_room_id event)] @
               (if do_auth then [AuthCheck event] else []) @
               [GetRoomMember (ev_target_user_id event) (ev_room_id event),
                GetRoom (ev_room_id event),
                Unlock (ev_room_id event),
                StoreRoom (ev_room_id event) (UserID_str hs inviter) False,
                FederationHandleNewEvent (invite_join_event hs event inviter),
                FederationGetStateForRoom (domain inviter) (ev_room_id event)] @ ext"
    and "broadcast_msg \<or> ext = []"
    by auto
  then show ?thesis
    by (simp add: new_calls_def)
qed

text \<open>Definitions unfolded to run a handler on the test double.\<close>

lemmas run_defs = change_membership_def membership_branch_def join_branch_def join_locked_def
  other_branch_def do_membership_update_def add_target_host_def
  is_remote_invite_join_def remote_join_dance_def is_mine_def hdefs test_hs_def w0_def
  join_event_def create_event_def parse_user_id_def Membership_JOIN_def Membership_INVITE_def
  Membership_LEAVE_def inject_membership_msg_def membership_msg_body_def send_message_def
  invite_join_event_def str_opt_def dict_set_def str_of_int_def digit_def



theorem remote_invite_join_dance_calls_witness:
  "UserID_from_string (test_hs (Some \<lparr>membership = ''invite'', sender = ''bob:blue''\<rparr>) None True 0)
      (Some ''bob:blue'') = Inr \<lparr>localpart = ''bob'', domain = ''blue''\<rparr>
   \<and> ''blue'' \<noteq> hostname (test_hs (Some \<lparr>membership = ''invite'', sender = ''bob:blue''\<rparr>) None True 0)
   \<and> fst (change_membership (test_hs (Some \<lparr>membership = ''invite'', sender = ''bob:blue''\<rparr>) None True 0)
         (join_event ''r1'' ''alice:red'') True True w0) = Inr (join_event ''r1'' ''alice:red'')
   \<and> filter is_join_request
        (new_calls w0 (snd (change_membership
           (test_hs (Some \<lparr>membership = ''invite'', sender = ''bob:blue''\<rparr>) None True 0)
           (join_event ''r1'' ''alice:red'') True True w0))) =
        [FederationHandleNewEvent
           \<lparr>ev_type = InviteJoinEvent_TYPE, ev_room_id = ''r1'', ev_user_id = ''alice:red'',
            ev_target_user_id = Some ''bob:blue'', ev_membership = None, ev_msg_id = None,
            ev_content = [], ev_destinations = [''blue'']\<rparr>]
   \<and> filter is_state_fetch
        (new_calls w0 (snd (change_membership
           (test_hs (Some \<lparr>membership = ''invite'', sender = ''bob:blue''\<rparr>) None True 0)
           (join_event ''r1'' ''alice:red'') True True w0))) =
        [FederationGetStateForRoom ''blue'' ''r1'']
   \<and> filter is_store_room_member
        (new_calls w0 (snd (change_membership
           (test_hs (Some \<lparr>membership = ''invite'', sender = ''bob:blue''\<rparr>) None True 0)
           (join_event ''r1'' ''alice:red'') True True w0))) = []"
proof -
  let ?p = "\<lparr>membership = ''invite'', sender = ''bob:blue''\<rparr>"
  let ?hs = "test_hs (Some ?p) None True 0"
  let ?ev = "join_event ''r1'' ''alice:red''"
  let ?inv = "\<lparr>localpart = ''bob'', domain = ''blue''\<rparr>"
  have h1: "ev_membership ?ev = Some Membership_JOIN"
    by (simp add: join_event_def create_event_def)
  have h2: "(if True then c_auth_check ?hs ?ev (st w0) else (Inr (), st w0)) = (Inr (), 0)"
    by (simp add: test_hs_def w0_def)
  have h3: "c_get_room_member ?hs (ev_target_user_id ?ev) (ev_room_id ?ev) 0 = (Inr (Some ?p), 0)"
    by (simp add: test_hs_def)
  have h4: "membership ?p = Membership_INVITE"
    by (simp add: Membership_INVITE_def)
  have h5: "c_get_room ?hs (ev_room_id ?ev) 0 = (Inr None, 0)"
    by (simp add: test_hs_def)
  have h6: "UserID_from_string ?hs (Some (sender ?p)) = Inr ?inv"
    by (simp add: test_hs_def parse_user_id_def)
  have h7: "domain ?inv \<noteq> hostname ?hs"
    by (simp add: test_hs_def)
  have h8: "c_store_room ?hs (ev_room_id ?ev) (UserID_str ?hs ?inv) False 0 = (Inr (), 1)"
    by (simp add: test_hs_def)
  have h9: "c_federation_handle_new_event ?hs (invite_join_event ?hs ?ev ?inv) 1 = (Inr (), 1)"
    by (simp add: test_hs_def)
  have h10: "change_membership ?hs ?ev True True w0 =
      (fst (change_membership ?hs ?ev True True w0), snd (change_membership ?hs ?ev True True w0))"
    by simp
  have r: "fst (change_membership ?hs ?ev True True w0) = Inr ?ev"
    by (simp add: run_defs)
  have e: "invite_join_event ?hs ?ev ?inv =
      \<lparr>ev_type = InviteJoinEvent_TYPE, ev_room_id = ''r1'', ev_user_id = ''alice:red'',
        ev_target_user_id = Some ''bob:blue'', ev_membership = None, ev_msg_id = None,
        ev_content = [], ev_destinations = [''blue'']\<rparr>"
    by (simp add: invite_join_event_def create_event_def join_event_def test_hs_def)
  have d: "ev_room_id ?ev = ''r1''" "domain ?inv = ''blue''"
    by (simp_all add: join_event_def create_event_def)
  from remote_invite_join_dance_calls [OF h1 h2 h3 h4 h5 h6 h7 h8 h9 h10]
  show ?thesis
    using h6 h7 r unfolding e d by simp
qed

theorem remote_invite_join_dance_outside_lock_witness:
  "UserID_from_string (test_hs (Some \<lparr>membership = ''invite'', sender = ''bob:blue''\<rparr>) None True 0)
      (Some ''bob:blue'') = Inr \<lparr>localpart = ''bob'', domain = ''blue''\<rparr>
   \<and> ''blue'' \<noteq> hostname (test_hs (Some \<lparr>membership = ''invite'', sender = ''bob:blue''\<rparr>) None True 0)
   \<and> fst (change_membership (test_hs (Some \<lparr>membership = ''invite'', sender = ''bob:blue''\<rparr>) None True 0)
         (join_event ''r1'' ''alice:red'') False True w0) = Inr (join_event ''r1'' ''alice:red'')
   \<and> new_calls w0 (snd (change_membership
           (test_hs (Some \<lparr>membership = ''invite'', sender = ''bob:blue''\<rparr>) None True 0)
           (join_event ''r1'' ''alice:red'') False True w0)) =
        [Lock ''r1'', AuthCheck (join_event ''r1'' ''alice:red''),
         GetRoomMember (Some ''alice:red'') ''r1'', GetRoom ''r1'', Unlock ''r1'',
         StoreRoom ''r1'' ''bob:blue'' False,
         FederationHandleNewEvent
           \<lparr>ev_type = InviteJoinEvent_TYPE, ev_room_id = ''r1'', ev_user_id = ''alice:red'',
            ev_target_user_id = Some ''bob:blue'', ev_membership = None, ev_msg_id = None,
            ev_content = [], ev_destinations = [''blue'']\<rparr>,
         FederationGetStateForRoom ''blue'' ''r1'']"
proof -
  let ?p = "\<lparr>membership = ''invite'', sender = ''bob:blue''\<rparr>"
  let ?hs = "test_hs (Some ?p) None True 0"
  let ?ev = "join_event ''r1'' ''alice:red''"
  let ?inv = "\<lparr>localpart = ''bob'', domain = ''blue''\<rparr>"
  have h1: "ev_membership ?ev = Some Membership_JOIN"
    by (simp add: join_event_def create_event_def)
  have h2: "(if True then c_auth_check ?hs ?ev (st w0) else (Inr (), st w0)) = (Inr (), 0)"
    by (simp add: test_hs_def w0_def)
  have h3: "c_get_room_member ?hs (ev_target_user_id ?ev) (ev_room_id ?ev) 0 = (Inr (Some ?p), 0)"
    by (simp add: test_hs_def)
  have h4: "membership ?p = Membership_INVITE"
    by (simp add: Membership_INVITE_def)
  have h5: "c_get_room ?hs (ev_room_id ?ev) 0 = (Inr None, 0)"
    by (simp add: test_hs_def)
  have h6: "UserID_from_string ?hs (Some (sender ?p)) = Inr ?inv"
    by (simp add: test_hs_def parse_user_id_def)
  have h7: "domain ?inv \<noteq> hostname ?hs"
    by (simp add: test_hs_def)
  have h8: "c_store_room ?hs (ev_room_id ?ev) (UserID_str ?hs ?inv) False 0 = (Inr (), 1)"
    by (simp add: test_hs_def)
  have h9: "c_federation_handle_new_event ?hs (invite_join_event ?hs ?ev ?inv) 1 = (Inr (), 1)"
    by (simp add: test_hs_def)
  have h10: "change_membership ?hs ?ev False True w0 =
      (fst (change_membership ?hs ?ev False True w0), snd (change_membership ?hs ?ev False True w0))"
    by simp
  have r: "fst (change_membership ?hs ?ev False True w0) = Inr ?ev"
    by (simp add: run_defs)
  have e: "invite_join_event ?hs ?ev ?inv =
      \<lparr>ev_type = InviteJoinEvent_TYPE, ev_room_id = ''r1'', ev_user_id = ''alice:red'',
        ev_target_user_id = Some ''bob:blue'', ev_membership = None, ev_msg_id = None,
        ev_content = [], ev_destinations = [''blue'']\<rparr>"
    by (simp add: invite_join_event_def create_event_def join_event_def test_hs_def)
  have d: "ev_room_id ?ev = ''r1''" "domain ?inv = ''blue''" "ev_target_user_id ?ev = Some ''alice:red''"
      "UserID_str ?hs ?inv = ''bob:blue''"
    by (simp_all add: join_event_def create_event_def test_hs_def)
  from remote_invite_join_dance_outside_lock [OF h1 h2 h3 h4 h5 h6 h7 h8 h9 h10]
  show ?thesis
    using h6 h7 r unfolding e d by simp
qed

subsection \<open>The ordinary join\<close>

text \<open>
  The dance does not apply when there is no previous membership or it is not invite
  (the room and the inviter are then not read), or when it is invite and the inviter's
  domain is this server's host name or the store knows the room.
\<close>

lemma no_dance_decision:
  assumes "(prev_state = None \<or> (\<exists>p. prev_state = Some p \<and> membership p \<noteq> Membership_INVITE)) \<and> s3 = s2
      \<or> (\<exists>p rm inviter. prev_state = Some p \<and> membership p = Membership_INVITE
            \<and> c_get_room hs (ev_room_id event) s2 = (Inr rm, s3)
            \<and> UserID_from_string hs (Some (sender p)) = Inr inviter
            \<and> (domain inviter = hostname hs \<or> rm \<noteq> None))"
  shows "is_remote_invite_join hs event prev_state \<lparr>st = s2, trace = t\<rparr> =
            (Inr None, \<lparr>st = s3, trace = t @
               (if map_option membership prev_state = Some Membership_INVITE
                then [GetRoom (ev_room_id event)] else [])\<rparr>)"
  using assms unfolding is_remote_invite_join_def is_mine_def
  by (auto simp: hdefs split: option.splits)

lemma forward_and_notify_calls:
  assumes "and_then (federation_handle_new_event hs e) (\<lambda>_.
           and_then (notifier_on_new_event hs e store_id) (\<lambda>_. succeed e)) w = (r, w')"
  shows "\<exists>post. trace w' = trace w @ FederationHandleNewEvent e # post
          \<and> filter is_store_room_member post = [] \<and> filter is_federation_send post = []
          \<and> (case r of Inl err \<Rightarrow> True | Inr e' \<Rightarrow> e' = e)"
  using assms by (auto simp: hdefs split: sum.splits prod.splits)

lemma ordinary_join_locked:
  assumes "map_of (ev_content event) ''membership'' = Some (JStr Membership_JOIN)"
      and "(if do_auth then c_auth_check hs event (st w) else (Inr (), st w)) = (Inr (), s1)"
      and "c_get_room_member hs (ev_target_user_id event) (ev_room_id event) s1 = (Inr prev_state, s2)"
      and "(prev_state = None \<or> (\<exists>p. prev_state = Some p \<and> membership p \<noteq> Membership_INVITE)) \<and> s3 = s2
      \<or> (\<exists>p rm inviter. prev_state = Some p \<and> membership p = Membership_INVITE
            \<and> c_get_room hs (ev_room_id event) s2 = (Inr rm, s3)
            \<and> UserID_from_string hs (Some (sender p)) = Inr inviter
            \<and> (domain inviter = hostname hs \<or> rm \<noteq> None))"
      and "c_state_handle_new_event hs event s3 = (Inr (), s4)"
      and "c_store_room_member hs (ev_target_user_id event) (ev_user_id event) (ev_room_id event)
             (ev_content event) (JStr Membership_JOIN) s4 = (Inr store_id, s5)"
      and "c_get_joined_hosts_for_room hs (ev_room_id event) s5 = (Inr hosts, s6)"
      and "UserID_from_string hs (ev_target_user_id event) = Inr u"
  shows "join_locked hs event do_auth w =
          (Inr (NormalJoin store_id (event\<lparr>ev_destinations := remdups (hosts @ [domain u])\<rparr>)),
           \<lparr>st = s6, trace = trace w @
              ([Lock (ev_room_id event)] @ (if do_auth then [AuthCheck event] else []) @
               [GetRoomMember (ev_target_user_id event) (ev_room_id event)] @
               (if map_option membership prev_state = Some Membership_INVITE
                then [GetRoom (ev_room_id event)] else []) @
               [StateHandleNewEvent event]) @
              [StoreRoomMember (ev_target_user_id event) (ev_user_id event) (ev_room_id event)
                 (ev_content event) (JStr Membership_JOIN),
               GetJoinedHostsForRoom (ev_room_id event), Unlock (ev_room_id event)]\<rparr>)"
proof -
  have j: "Membership_JOIN \<noteq> Membership_INVITE"
    by (simp add: Membership_JOIN_def Membership_INVITE_def)
  note d = no_dance_decision [OF assms(4)]
  show ?thesis
  proof (cases do_auth)
    case True
    with assms(1-3,5-8) j show ?thesis
      unfolding join_locked_def do_membership_update_def add_target_host_def
      by (simp add: hdefs d)
  next
    case False
    with assms(1-3,5-8) j show ?thesis
      unfolding join_locked_def do_membership_update_def add_target_host_def
      by (simp add: hdefs d)
  qed
qed

lemma change_membership_result:
  assumes "membership_branch hs event do_auth w = (r1, w1)"
      and "change_membership hs event broadcast_msg do_auth w = (res, w')"
  shows "case res of Inl err \<Rightarrow> True | Inr e \<Rightarrow> r1 = Inr e"
  using assms unfolding change_membership_def
  by (auto simp: and_then_def succeed_def raise_def dict_get_def
      split: if_splits prod.splits sum.splits option.splits)

text \<open>
  Claim C3. A JOIN event (both the \<^verbatim>\<open>membership\<close> attribute and the content's
  \<^verbatim>\<open>"membership"\<close> are join) for which the dance does not apply: granted that the
  authorization check passes and that state reconciliation, the membership write and the
  read of the joined hosts return, \<^verbatim>\<open>change_membership\<close> calls
  \<^verbatim>\<open>store_room_member\<close> exactly once, for the target user in the event's room with
  membership join, and the event it hands to federation (and returns) has as
  destinations the joined hosts the store returned together with the domain of the
  joining user.
\<close>

theorem ordinary_join_commits_and_sets_destinations:
  assumes "ev_membership event = Some Membership_JOIN"
      and "map_of (ev_content event) ''membership'' = Some (JStr Membership_JOIN)"
      and "(if do_auth then c_auth_check hs event (st w) else (Inr (), st w)) = (Inr (), s1)"
      and "c_get_room_member hs (ev_target_user_id event) (ev_room_id event) s1 = (Inr prev_state, s2)"
      and "(prev_state = None \<or> (\<exists>p. prev_state = Some p \<and> membership p \<noteq> Membership_INVITE)) \<and> s3 = s2
      \<or> (\<exists>p rm inviter. prev_state = Some p \<and> membership p = Membership_INVITE
            \<and> c_get_room hs (ev_room_id event) s2 = (Inr rm, s3)
            \<and> UserID_from_string hs (Some (sender p)) = Inr inviter
            \<and> (domain inviter = hostname hs \<or> rm \<noteq> None))"
      and "c_state_handle_new_event hs event s3 = (Inr (), s4)"
      and "c_store_room_member hs (ev_target_user_id event) (ev_user_id event) (ev_room_id event)
             (ev_content event) (JStr Membership_JOIN) s4 = (Inr store_id, s5)"
      and "c_get_joined_hosts_for_room hs (ev_room_id event) s5 = (Inr hosts, s6)"
      and "UserID_from_string hs (ev_target_user_id event) = Inr u"
      and "change_membership hs event broadcast_msg do_auth w = (res, w')"
  shows "filter is_store_room_member (new_calls w w') =
           [StoreRoomMember (ev_target_user_id event) (ev_user_id event) (ev_room_id event)
              (ev_content event) (JStr Membership_JOIN)]
         \<and> (\<exists>dests rest.
               set dests = set hosts \<union> {domain u}
               \<and> filter is_federation_send (new_calls w w') =
                   FederationHandleNewEvent (event\<lparr>ev_destinations := dests\<rparr>) # rest
               \<and> (case res of Inl err \<Rightarrow> True | Inr e \<Rightarrow> e = event\<lparr>ev_destinations := dests\<rparr>))"
proof -
  let ?e = "event\<lparr>ev_destinations := remdups (hosts @ [domain u])\<rparr>"
  obtain r1 w1 where b: "membership_branch hs event do_auth w = (r1, w1)"
    by (cases "membership_branch hs event do_auth w")
  note l = ordinary_join_locked [OF assms(2-9)]
  from b assms(1) l have
    "and_then (federation_handle_new_event hs ?e) (\<lambda>_.
       and_then (notifier_on_new_event hs ?e store_id) (\<lambda>_. succeed ?e))
       (snd (join_locked hs event do_auth w)) = (r1, w1)"
    by (simp add: membership_branch_def join_branch_def and_then_def)
  from forward_and_notify_calls [OF this] l obtain post where
    p: "trace w1 = trace w @
              ([Lock (ev_room_id event)] @ (if do_auth then [AuthCheck event] else []) @
               [GetRoomMember (ev_target_user_id event) (ev_room_id event)] @
               (if map_option membership prev_state = Some Membership_INVITE
                then [GetRoom (ev_room_id event)] else []) @
               [StateHandleNewEvent event]) @
              [StoreRoomMember (ev_target_user_id event) (ev_user_id event) (ev_room_id event)
                 (ev_content event) (JStr Membership_JOIN),
               GetJoinedHostsForRoom (ev_room_id event), Unlock (ev_room_id event)] @
              FederationHandleNewEvent ?e # post"
    and q: "filter is_store_room_member post = []" "filter is_federation_send post = []"
    and r: "case r1 of Inl err \<Rightarrow> True | Inr e' \<Rightarrow> e' = ?e"
    by auto
  from broadcast_calls [OF b assms(10)] obtain ext where
    x: "trace w' = trace w1 @ ext" "filter is_store_room_member ext = []"
    by auto
  from change_membership_result [OF b assms(10)] r
  have res: "case res of Inl err \<Rightarrow> True | Inr e \<Rightarrow> e = ?e"
    by (auto split: sum.splits)
  have 1: "filter is_store_room_member (new_calls w w') =
           [StoreRoomMember (ev_target_user_id event) (ev_user_id event) (ev_room_id event)
              (ev_content event) (JStr Membership_JOIN)]"
    using p q x by (simp add: new_calls_def)
  have 2: "filter is_federation_send (new_calls w w') =
             FederationHandleNewEvent ?e # filter is_federation_send ext"
    using p q x by (simp add: new_calls_def)
  have 3: "set (remdups (hosts @ [domain u])) = set hosts \<union> {domain u}"
    by simp
  from 1 2 3 res show ?thesis
    by blast
qed


theorem ordinary_join_commits_and_sets_destinations_witness:
  "UserID_from_string (test_hs (Some \<lparr>membership = ''invite'', sender = ''carol:red''\<rparr>) None True 0)
      (Some ''carol:red'') = Inr \<lparr>localpart = ''carol'', domain = ''red''\<rparr>
   \<and> ''red'' = hostname (test_hs (Some \<lparr>membership = ''invite'', sender = ''carol:red''\<rparr>) None True 0)
   \<and> filter is_store_room_member
        (new_calls w0 (snd (change_membership
           (test_hs (Some \<lparr>membership = ''invite'', sender = ''carol:red''\<rparr>) None True 0)
           (join_event ''r1'' ''alice:red'') True True w0))) =
        [StoreRoomMember (Some ''alice:red'') ''alice:red'' ''r1''
           [(''membership'', JStr ''join'')] (JStr ''join'')]
   \<and> (\<exists>dests rest.
         set dests = {''red'', ''blue''}
         \<and> filter is_federation_send
              (new_calls w0 (snd (change_membership
                 (test_hs (Some \<lparr>membership = ''invite'', sender = ''carol:red''\<rparr>) None True 0)
                 (join_event ''r1'' ''alice:red'') True True w0))) =
             FederationHandleNewEvent ((join_event ''r1'' ''alice:red'')\<lparr>ev_destinations := dests\<rparr>) # rest
         \<and> fst (change_membership
                 (test_hs (Some \<lparr>membership = ''invite'', sender = ''carol:red''\<rparr>) None True 0)
                 (join_event ''r1'' ''alice:red'') True True w0) =
             Inr ((join_event ''r1'' ''alice:red'')\<lparr>ev_destinations := dests\<rparr>))"
proof -
  let ?p = "\<lparr>membership = ''invite'', sender = ''carol:red''\<rparr>"
  let ?hs = "test_hs (Some ?p) None True 0"
  let ?ev = "join_event ''r1'' ''alice:red''"
  let ?inv = "\<lparr>localpart = ''carol'', domain = ''red''\<rparr>"
  let ?u = "\<lparr>localpart = ''alice'', domain = ''red''\<rparr>"
  have h1: "ev_membership ?ev = Some Membership_JOIN"
    by (simp add: join_event_def create_event_def)
  have h2: "map_of (ev_content ?ev) ''membership'' = Some (JStr Membership_JOIN)"
    by (simp add: join_event_def create_event_def)
  have h3: "(if True then c_auth_check ?hs ?ev (st w0) else (Inr (), st w0)) = (Inr (), 0)"
    by (simp add: test_hs_def w0_def)
  have h4: "c_get_room_member ?hs (ev_target_user_id ?ev) (ev_room_id ?ev) 0 = (Inr (Some ?p), 0)"
    by (simp add: test_hs_def)
  have i: "UserID_from_string ?hs (Some ''carol:red'') = Inr ?inv"
    by (simp add: test_hs_def parse_user_id_def)
  have m: "''red'' = hostname ?hs"
    by (simp add: test_hs_def)
  have h5: "(Some ?p = None \<or> (\<exists>p. Some ?p = Some p \<and> membership p \<noteq> Membership_INVITE)) \<and> (0::nat) = 0
      \<or> (\<exists>p rm inviter. Some ?p = Some p \<and> membership p = Membership_INVITE
            \<and> c_get_room ?hs (ev_room_id ?ev) 0 = (Inr rm, 0)
            \<and> UserID_from_string ?hs (Some (sender p)) = Inr inviter
            \<and> (domain inviter = hostname ?hs \<or> rm \<noteq> None))"
  proof -
    have "Some ?p = Some ?p \<and> membership ?p = Membership_INVITE
            \<and> c_get_room ?hs (ev_room_id ?ev) 0 = (Inr None, 0)
            \<and> UserID_from_string ?hs (Some (sender ?p)) = Inr ?inv
            \<and> (domain ?inv = hostname ?hs \<or> (None :: room option) \<noteq> None)"
      using i by (simp add: Membership_INVITE_def test_hs_def)
    then show ?thesis by blast
  qed
  have h6: "c_state_handle_new_event ?hs ?ev 0 = (Inr (), 0)"
    by (simp add: test_hs_def)
  have h7: "c_store_room_member ?hs (ev_target_user_id ?ev) (ev_user_id ?ev) (ev_room_id ?ev)
             (ev_content ?ev) (JStr Membership_JOIN) 0 = (Inr 0, 1)"
    by (simp add: test_hs_def)
  have h8: "c_get_joined_hosts_for_room ?hs (ev_room_id ?ev) 1 = (Inr [''red'', ''blue''], 1)"
    by (simp add: test_hs_def)
  have h9: "UserID_from_string ?hs (ev_target_user_id ?ev) = Inr ?u"
    by (simp add: test_hs_def parse_user_id_def join_event_def create_event_def)
  have h10: "change_membership ?hs ?ev True True w0 =
      (fst (change_membership ?hs ?ev True True w0), snd (change_membership ?hs ?ev True True w0))"
    by simp
  have r: "fst (change_membership ?hs ?ev True True w0) = Inr (?ev\<lparr>ev_destinations := [''blue'', ''red'']\<rparr>)"
    by (simp add: run_defs)
  have d: "ev_target_user_id ?ev = Some ''alice:red''" "ev_user_id ?ev = ''alice:red''"
      "ev_room_id ?ev = ''r1''" "ev_content ?ev = [(''membership'', JStr ''join'')]"
      "Membership_JOIN = ''join''" "domain ?u = ''red''"
    by (simp_all add: join_event_def create_event_def Membership_JOIN_def)
  from ordinary_join_commits_and_sets_destinations [OF h1 h2 h3 h4 h5 h6 h7 h8 h9 h10]
  have "filter is_store_room_member (new_calls w0 (snd (change_membership ?hs ?ev True True w0))) =
        [StoreRoomMember (Some ''alice:red'') ''alice:red'' ''r1''
           [(''membership'', JStr ''join'')] (JStr ''join'')]
     \<and> (\<exists>dests rest.
         set dests = {''red'', ''blue''}
         \<and> filter is_federation_send (new_calls w0 (snd (change_membership ?hs ?ev True True w0))) =
             FederationHandleNewEvent (?ev\<lparr>ev_destinations := dests\<rparr>) # rest
         \<and> fst (change_membership ?hs ?ev True True w0) = Inr (?ev\<lparr>ev_destinations := dests\<rparr>))"
    unfolding d r by (simp add: insert_commute)
  with i m show ?thesis by blast
qed

subsection \<open>The membership notice\<close>

text \<open>
  The membership branch changes nothing of the event but its destinations, so the notice
  is about the room, the acting user, the target and the membership of the event given.
\<close>

lemma do_membership_update_event:
  assumes "do_membership_update hs event w = (Inr (store_id, event'), w1)"
  shows "event' = event\<lparr>ev_destinations := ev_destinations event'\<rparr>"
  using assms unfolding do_membership_update_def add_target_host_def
  by (auto simp: hdefs split: if_splits sum.splits prod.splits option.splits)

lemma join_locked_event:
  assumes "join_locked hs event do_auth w = (Inr (NormalJoin store_id event'), w1)"
  shows "event' = event\<lparr>ev_destinations := ev_destinations event'\<rparr>"
proof -
  from assms obtain wa wb where "do_membership_update hs event wa = (Inr (store_id, event'), wb)"
    unfolding join_locked_def with_lock_def and_then_def succeed_def
    by (auto split: if_splits sum.splits prod.splits option.splits)
  then show ?thesis by (rule do_membership_update_event)
qed

lemma join_branch_event:
  assumes "join_branch hs event do_auth w = (Inr event', w1)"
  shows "event' = event\<lparr>ev_destinations := ev_destinations event'\<rparr>"
proof -
  obtain d wa where l: "join_locked hs event do_auth w = (Inr d, wa)"
    using assms unfolding join_branch_def and_then_def
    by (auto split: sum.splits prod.splits)
  show ?thesis
  proof (cases d)
    case (NormalJoin store_id e)
    with l have e: "e = event\<lparr>ev_destinations := ev_destinations e\<rparr>"
      using join_locked_event by blast
    from assms l NormalJoin have "event' = e"
      unfolding join_branch_def and_then_def succeed_def
      by (auto split: sum.splits prod.splits)
    with e show ?thesis by simp
  next
    case (RemoteInviteJoin inviter)
    with assms l have "event' = event"
      unfolding join_branch_def remote_join_dance_def and_then_def succeed_def
      by (auto split: sum.splits prod.splits)
    then show ?thesis by simp
  qed
qed

lemma other_branch_event:
  assumes "other_branch hs event do_auth w = (Inr event', w1)"
  shows "event' = event\<lparr>ev_destinations := ev_destinations event'\<rparr>"
proof -
  from assms obtain store_id wa wb where
    "do_membership_update hs event wa = (Inr (store_id, event'), wb)"
    unfolding other_branch_def with_lock_def and_then_def succeed_def
    by (auto split: if_splits sum.splits prod.splits)
  then show ?thesis by (rule do_membership_update_event)
qed

lemma membership_branch_event:
  assumes "membership_branch hs event do_auth w = (Inr event', w1)"
  shows "event' = event\<lparr>ev_destinations := ev_destinations event'\<rparr>"
  using assms join_branch_event other_branch_event
  unfolding membership_branch_def by (auto split: if_splits)

lemma change_membership_no_broadcast:
  "change_membership hs event False do_auth w = membership_branch hs event do_auth w"
  by (auto simp: change_membership_def and_then_def succeed_def split: sum.splits prod.splits)

text \<open>
  Claim C9. \<^verbatim>\<open>change_membership\<close> with \<^verbatim>\<open>broadcast_msg\<close> set, once its membership
  branch has returned in world \<open>w\<close>. For a membership value other than invite, join
  and leave, \<^verbatim>\<open>_inject_membership_msg\<close> raises
  \<^verbatim>\<open>RoomError(500, "Unknown membership value ...")\<close> and leaves the world as it was, so
  no message event is built or sent, and \<^verbatim>\<open>change_membership\<close> ends with that error in
  the world its membership branch left. For the three recognized values
  \<^verbatim>\<open>change_membership\<close> is completed by exactly one call of \<^verbatim>\<open>send_message\<close> with
  authorization suppressed, on a text message of user \<^verbatim>\<open>_homeserver_\<close> in the event's
  room whose body describes the change ("X invited Y to the room.", "Y joined the
  room.", "Y left the room."); it returns when that call returns, raises what that call
  raises, and makes no authorization check after the membership branch. Without
  \<^verbatim>\<open>broadcast_msg\<close> nothing follows the membership branch.
\<close>

theorem change_membership_injects_notice:
  "(m \<noteq> JStr Membership_INVITE \<and> m \<noteq> JStr Membership_JOIN \<and> m \<noteq> JStr Membership_LEAVE \<longrightarrow>
      inject_membership_msg hs room_id source target m w =
        (Inl (RoomError 500 (''Unknown membership value '' @ py_str m)), w)
      \<and> (membership_branch hs event do_auth wa = (Inr event', w)
           \<and> map_of (ev_content event') ''membership'' = Some m \<longrightarrow>
         change_membership hs event True do_auth wa =
           (Inl (RoomError 500 (''Unknown membership value '' @ py_str m)), w)))
   \<and> (m \<in> {JStr Membership_INVITE, JStr Membership_JOIN, JStr Membership_LEAVE}
       \<and> time_ms hs (st w) = (t, s1) \<longrightarrow>
      inject_membership_msg hs room_id source target m w =
        (case send_message hs
                (create_event MessageEvent_TYPE room_id ''_homeserver_'' None None
                   (Some (CHR ''m'' # str_of_int t))
                   [(''msgtype'', JStr ''sy.text''),
                    (''body'', JStr
                       (if m = JStr Membership_INVITE
                        then source @ '' invited '' @ str_opt target @ '' to the room.''
                        else if m = JStr Membership_JOIN
                        then str_opt target @ '' joined the room.''
                        else str_opt target @ '' left the room.''))])
                True True (w\<lparr>st := s1\<rparr>) of
           (Inl e, w') \<Rightarrow> (Inl e, w')
         | (Inr _, w') \<Rightarrow> (Inr (), w'))
      \<and> filter is_auth_check (new_calls w (snd (inject_membership_msg hs room_id source target m w))) = []
      \<and> (membership_branch hs event do_auth wa = (Inr event', w)
           \<and> map_of (ev_content event') ''membership'' = Some m \<longrightarrow>
         event' = event\<lparr>ev_destinations := ev_destinations event'\<rparr>
         \<and> map_of (ev_content event) ''membership'' = Some m
         \<and> change_membership hs event True do_auth wa =
           (case send_message hs
                (create_event MessageEvent_TYPE (ev_room_id event) ''_homeserver_'' None None
                   (Some (CHR ''m'' # str_of_int t))
                   [(''msgtype'', JStr ''sy.text''),
                    (''body'', JStr
                       (if m = JStr Membership_INVITE
                        then ev_user_id event @ '' invited '' @ str_opt (ev_target_user_id event)
                               @ '' to the room.''
                        else if m = JStr Membership_JOIN
                        then str_opt (ev_target_user_id event) @ '' joined the room.''
                        else str_opt (ev_target_user_id event) @ '' left the room.''))])
                True True (w\<lparr>st := s1\<rparr>) of
              (Inl e, w') \<Rightarrow> (Inl e, w')
            | (Inr _, w') \<Rightarrow> (Inr event', w'))
         \<and> filter is_auth_check (new_calls w (snd (change_membership hs event True do_auth wa))) = []))
   \<and> change_membership hs event False do_auth wa = membership_branch hs event do_auth wa"
proof (intro conjI impI)
  assume u: "m \<noteq> JStr Membership_INVITE \<and> m \<noteq> JStr Membership_JOIN \<and> m \<noteq> JStr Membership_LEAVE"
  then show "inject_membership_msg hs room_id source target m w =
        (Inl (RoomError 500 (''Unknown membership value '' @ py_str m)), w)"
    by (simp add: inject_membership_msg_def membership_msg_body_def and_then_def raise_def)
  assume "membership_branch hs event do_auth wa = (Inr event', w)
           \<and> map_of (ev_content event') ''membership'' = Some m"
  with u show "change_membership hs event True do_auth wa =
           (Inl (RoomError 500 (''Unknown membership value '' @ py_str m)), w)"
    by (simp add: change_membership_def inject_membership_msg_def membership_msg_body_def
        and_then_def raise_def dict_get_def succeed_def)
next
  assume k: "m \<in> {JStr Membership_INVITE, JStr Membership_JOIN, JStr Membership_LEAVE}
       \<and> time_ms hs (st w) = (t, s1)"
  then show i: "inject_membership_msg hs room_id source target m w =
        (case send_message hs
                (create_event MessageEvent_TYPE room_id ''_homeserver_'' None None
                   (Some (CHR ''m'' # str_of_int t))
                   [(''msgtype'', JStr ''sy.text''),
                    (''body'', JStr
                       (if m = JStr Membership_INVITE
                        then source @ '' invited '' @ str_opt target @ '' to the room.''
                        else if m = JStr Membership_JOIN
                        then str_opt target @ '' joined the room.''
                        else str_opt target @ '' left the room.''))])
                True True (w\<lparr>st := s1\<rparr>) of
           (Inl e, w') \<Rightarrow> (Inl e, w')
         | (Inr _, w') \<Rightarrow> (Inr (), w'))" for room_id source target
    by (auto simp: inject_membership_msg_def membership_msg_body_def and_then_def raise_def
        succeed_def now_ms_def Membership_INVITE_def Membership_JOIN_def Membership_LEAVE_def
        split: prod.splits sum.splits)
  obtain r w' where "inject_membership_msg hs room_id source target m w = (r, w')"
    by (cases "inject_membership_msg hs room_id source target m w")
  from inject_membership_msg_calls [OF this] this
  show "filter is_auth_check (new_calls w (snd (inject_membership_msg hs room_id source target m w))) = []"
    by (auto simp: new_calls_def)
  assume b: "membership_branch hs event do_auth wa = (Inr event', w)
           \<and> map_of (ev_content event') ''membership'' = Some m"
  then have ev: "event' = event\<lparr>ev_destinations := ev_destinations event'\<rparr>"
    using membership_branch_event by blast
  then have f: "ev_room_id event' = ev_room_id event" "ev_user_id event' = ev_user_id event"
      "ev_target_user_id event' = ev_target_user_id event" "ev_content event' = ev_content event"
    by (cases event, cases event', simp)+
  from ev show "event' = event\<lparr>ev_destinations := ev_destinations event'\<rparr>" .
  from b f show "map_of (ev_content event) ''membership'' = Some m" by simp
  have c: "change_membership hs event True do_auth wa =
      (case inject_membership_msg hs (ev_room_id event) (ev_user_id event) (ev_target_user_id event) m w of
         (Inl e, w') \<Rightarrow> (Inl e, w') | (Inr _, w') \<Rightarrow> (Inr event', w'))"
    using b f by (auto simp: change_membership_def and_then_def dict_get_def succeed_def
        split: sum.splits prod.splits)
  show "change_membership hs event True do_auth wa =
           (case send_message hs
                (create_event MessageEvent_TYPE (ev_room_id event) ''_homeserver_'' None None
                   (Some (CHR ''m'' # str_of_int t))
                   [(''msgtype'', JStr ''sy.text''),
                    (''body'', JStr
                       (if m = JStr Membership_INVITE
                        then ev_user_id event @ '' invited '' @ str_opt (ev_target_user_id event)
                               @ '' to the room.''
                        else if m = JStr Membership_JOIN
                        then str_opt (ev_target_user_id event) @ '' joined the room.''
                        else str_opt (ev_target_user_id event) @ '' left the room.''))])
                True True (w\<lparr>st := s1\<rparr>) of
              (Inl e, w') \<Rightarrow> (Inl e, w')
            | (Inr _, w') \<Rightarrow> (Inr event', w'))"
    unfolding c i by (auto split: sum.splits prod.splits)
  obtain r2 w2 where i2: "inject_membership_msg hs (ev_room_id event) (ev_user_id event)
      (ev_target_user_id event) m w = (r2, w2)"
    by (cases "inject_membership_msg hs (ev_room_id event) (ev_user_id event) (ev_target_user_id event) m w")
  from inject_membership_msg_calls [OF i2] i2
  show "filter is_auth_check (new_calls w (snd (change_membership hs event True do_auth wa))) = []"
    unfolding c by (auto simp: new_calls_def split: sum.splits)
next
  show "change_membership hs event False do_auth wa = membership_branch hs event do_auth wa"
    by (rule change_membership_no_broadcast)
qed


theorem change_membership_injects_notice_witness:
  "inject_membership_msg (test_hs None None True 0) ''r1'' ''alice:red'' (Some ''bob:blue'')
      (JStr ''banana'') w0 =
     (Inl (RoomError 500 ''Unknown membership value banana''), w0)
   \<and> fst (membership_branch (test_hs None None True 0)
        (create_event RoomMemberEvent_TYPE ''r1'' ''alice:red'' (Some ''bob:blue'') (Some ''banana'') None
           [(''membership'', JStr ''banana'')]) True w0) =
      Inr ((create_event RoomMemberEvent_TYPE ''r1'' ''alice:red'' (Some ''bob:blue'') (Some ''banana'') None
           [(''membership'', JStr ''banana'')])\<lparr>ev_destinations := [''red'', ''blue'']\<rparr>)
   \<and> change_membership (test_hs None None True 0)
        (create_event RoomMemberEvent_TYPE ''r1'' ''alice:red'' (Some ''bob:blue'') (Some ''banana'') None
           [(''membership'', JStr ''banana'')]) True True w0 =
      (Inl (RoomError 500 ''Unknown membership value banana''),
       snd (membership_branch (test_hs None None True 0)
        (create_event RoomMemberEvent_TYPE ''r1'' ''alice:red'' (Some ''bob:blue'') (Some ''banana'') None
           [(''membership'', JStr ''banana'')]) True w0))
   \<and> time_ms (test_hs None None True 0) (st w0) = (1000, 0)
   \<and> inject_membership_msg (test_hs None None True 0) ''r1'' ''alice:red'' (Some ''bob:blue'')
        (JStr ''join'') w0 =
      (Inr (),
       \<lparr>st = 1, trace =
          [Lock ''r1'',
           PersistEvent
            \<lparr>ev_type = MessageEvent_TYPE, ev_room_id = ''r1'', ev_user_id = ''_homeserver_'',
             ev_target_user_id = None, ev_membership = None, ev_msg_id = Some ''m1000'',
             ev_content = [(''msgtype'', JStr ''sy.text''), (''body'', JStr ''bob:blue joined the room.''),
                           (''hsob_ts'', JInt 1000)],
             ev_destinations = []\<rparr>,
           GetJoinedHostsForRoom ''r1'',
           FederationHandleNewEvent
            \<lparr>ev_type = MessageEvent_TYPE, ev_room_id = ''r1'', ev_user_id = ''_homeserver_'',
             ev_target_user_id = None, ev_membership = None, ev_msg_id = Some ''m1000'',
             ev_content = [(''msgtype'', JStr ''sy.text''), (''body'', JStr ''bob:blue joined the room.''),
                           (''hsob_ts'', JInt 1000)],
             ev_destinations = [''red'', ''blue'']\<rparr>,
           NotifierOnNewEvent
            \<lparr>ev_type = MessageEvent_TYPE, ev_room_id = ''r1'', ev_user_id = ''_homeserver_'',
             ev_target_user_id = None, ev_membership = None, ev_msg_id = Some ''m1000'',
             ev_content = [(''msgtype'', JStr ''sy.text''), (''body'', JStr ''bob:blue joined the room.''),
                           (''hsob_ts'', JInt 1000)],
             ev_destinations = [''red'', ''blue'']\<rparr> 0,
           Unlock ''r1'']\<rparr>)
   \<and> filter is_auth_check
        (new_calls w0 (snd (inject_membership_msg (test_hs None None True 0) ''r1'' ''alice:red''
           (Some ''bob:blue'') (JStr ''join'') w0))) = []
   \<and> fst (membership_branch (test_hs None None True 0) (join_event ''r1'' ''alice:red'') True w0) =
      Inr ((join_event ''r1'' ''alice:red'')\<lparr>ev_destinations := [''blue'', ''red'']\<rparr>)
   \<and> time_ms (test_hs None None True 0)
        (st (snd (membership_branch (test_hs None None True 0) (join_event ''r1'' ''alice:red'') True w0))) =
      (1001, 1)
   \<and> fst (change_membership (test_hs None None True 0) (join_event ''r1'' ''alice:red'') True True w0) =
      Inr ((join_event ''r1'' ''alice:red'')\<lparr>ev_destinations := [''blue'', ''red'']\<rparr>)
   \<and> new_calls
        (snd (membership_branch (test_hs None None True 0) (join_event ''r1'' ''alice:red'') True w0))
        (snd (change_membership (test_hs None None True 0) (join_event ''r1'' ''alice:red'') True True w0)) =
      [Lock ''r1'',
       PersistEvent
        \<lparr>ev_type = MessageEvent_TYPE, ev_room_id = ''r1'', ev_user_id = ''_homeserver_'',
         ev_target_user_id = None, ev_membership = None, ev_msg_id = Some ''m1001'',
         ev_content = [(''msgtype'', JStr ''sy.text''), (''body'', JStr ''alice:red joined the room.''),
                       (''hsob_ts'', JInt 1001)],
         ev_destinations = []\<rparr>,
       GetJoinedHostsForRoom ''r1'',
       FederationHandleNewEvent
        \<lparr>ev_type = MessageEvent_TYPE, ev_room_id = ''r1'', ev_user_id = ''_homeserver_'',
         ev_target_user_id = None, ev_membership = None, ev_msg_id = Some ''m1001'',
         ev_content = [(''msgtype'', JStr ''sy.text''), (''body'', JStr ''alice:red joined the room.''),
                       (''hsob_ts'', JInt 1001)],
         ev_destinations = [''red'', ''blue'']\<rparr>,
       NotifierOnNewEvent
        \<lparr>ev_type = MessageEvent_TYPE, ev_room_id = ''r1'', ev_user_id = ''_homeserver_'',
         ev_target_user_id = None, ev_membership = None, ev_msg_id = Some ''m1001'',
         ev_content = [(''msgtype'', JStr ''sy.text''), (''body'', JStr ''alice:red joined the room.''),
                       (''hsob_ts'', JInt 1001)],
         ev_destinations = [''red'', ''blue'']\<rparr> 1,
       Unlock ''r1'']
   \<and> change_membership (test_hs None None True 0) (join_event ''r1'' ''alice:red'') False True w0 =
      membership_branch (test_hs None None True 0) (join_event ''r1'' ''alice:red'') True w0"
proof -
  let ?hs = "test_hs None None True 0"
  let ?ev = "create_event RoomMemberEvent_TYPE ''r1'' ''alice:red'' (Some ''bob:blue'') (Some ''banana'') None
           [(''membership'', JStr ''banana'')]"
  let ?ev' = "?ev\<lparr>ev_destinations := [''red'', ''blue'']\<rparr>"
  let ?w1 = "snd (membership_branch ?hs ?ev True w0)"
  let ?j = "join_event ''r1'' ''alice:red''"
  let ?j' = "?j\<lparr>ev_destinations := [''blue'', ''red'']\<rparr>"
  let ?wj = "snd (membership_branch ?hs ?j True w0)"
  have u: "JStr ''banana'' \<noteq> JStr Membership_INVITE \<and> JStr ''banana'' \<noteq> JStr Membership_JOIN
             \<and> JStr ''banana'' \<noteq> JStr Membership_LEAVE"
    by (simp add: Membership_INVITE_def Membership_JOIN_def Membership_LEAVE_def)
  have f: "fst (membership_branch ?hs ?ev True w0) = Inr ?ev'"
    by (simp add: run_defs)
  then have b: "membership_branch ?hs ?ev True w0 = (Inr ?ev', ?w1)"
    by (simp add: prod_eq_iff)
  have c: "map_of (ev_content ?ev') ''membership'' = Some (JStr ''banana'')"
    by (simp add: create_event_def)
  have k: "JStr ''join'' \<in> {JStr Membership_INVITE, JStr Membership_JOIN, JStr Membership_LEAVE}"
    by (simp add: Membership_JOIN_def)
  have t: "time_ms ?hs (st w0) = (1000, 0)"
    by (simp add: test_hs_def w0_def)
  have fj: "fst (membership_branch ?hs ?j True w0) = Inr ?j'"
    by (simp add: run_defs)
  then have bj: "membership_branch ?hs ?j True w0 = (Inr ?j', ?wj)"
    by (simp add: prod_eq_iff)
  have cj: "map_of (ev_content ?j') ''membership'' = Some (JStr ''join'')"
    by (simp add: join_event_def create_event_def Membership_JOIN_def)
  have tj: "time_ms ?hs (st ?wj) = (1001, 1)"
    by (simp add: run_defs)
  note a1 = change_membership_injects_notice
    [where m = "JStr ''banana''" and hs = ?hs and room_id = "''r1''" and source = "''alice:red''"
       and target = "Some ''bob:blue''" and w = w0,
      THEN conjunct1, rule_format, OF u, THEN conjunct1]
  note a2 = change_membership_injects_notice
    [where m = "JStr ''banana''" and hs = ?hs and w = ?w1 and event = ?ev and do_auth = True
       and wa = w0 and event' = ?ev',
      THEN conjunct1, rule_format, OF u, THEN conjunct2, rule_format, OF conjI [OF b c]]
  note g1 = change_membership_injects_notice
    [where m = "JStr ''join''" and hs = ?hs and room_id = "''r1''" and source = "''alice:red''"
       and target = "Some ''bob:blue''" and w = w0 and t = 1000 and ?s1.0 = 0,
      THEN conjunct2, THEN conjunct1, rule_format, OF conjI [OF k t]]
  note g2 = change_membership_injects_notice
    [where m = "JStr ''join''" and hs = ?hs and w = ?wj and t = 1001 and ?s1.0 = 1
       and event = ?j and do_auth = True and wa = w0 and event' = ?j',
      THEN conjunct2, THEN conjunct1, rule_format, OF conjI [OF k tj],
      THEN conjunct2, THEN conjunct2, rule_format, OF conjI [OF bj cj],
      THEN conjunct2, THEN conjunct2, THEN conjunct1]
  note n = change_membership_injects_notice
    [where hs = ?hs and event = ?j and do_auth = True and wa = w0,
      THEN conjunct2, THEN conjunct2]
  have 1: "inject_membership_msg ?hs ''r1'' ''alice:red'' (Some ''bob:blue'') (JStr ''banana'') w0 =
     (Inl (RoomError 500 ''Unknown membership value banana''), w0)"
    using a1 by simp
  have 2: "change_membership ?hs ?ev True True w0 =
      (Inl (RoomError 500 ''Unknown membership value banana''), ?w1)"
    using a2 by simp
  have 3: "inject_membership_msg ?hs ''r1'' ''alice:red'' (Some ''bob:blue'') (JStr ''join'') w0 =
      (Inr (),
       \<lparr>st = 1, trace =
          [Lock ''r1'',
           PersistEvent
            \<lparr>ev_type = MessageEvent_TYPE, ev_room_id = ''r1'', ev_user_id = ''_homeserver_'',
             ev_target_user_id = None, ev_membership = None, ev_msg_id = Some ''m1000'',
             ev_content = [(''msgtype'', JStr ''sy.text''), (''body'', JStr ''bob:blue joined the room.''),
                           (''hsob_ts'', JInt 1000)],
             ev_destinations = []\<rparr>,
           GetJoinedHostsForRoom ''r1'',
           FederationHandleNewEvent
            \<lparr>ev_type = MessageEvent_TYPE, ev_room_id = ''r1'', ev_user_id = ''_homeserver_'',
             ev_target_user_id = None, ev_membership = None, ev_msg_id = Some ''m1000'',
             ev_content = [(''msgtype'', JStr ''sy.text''), (''body'', JStr ''bob:blue joined the room.''),
                           (''hsob_ts'', JInt 1000)],
             ev_destinations = [''red'', ''blue'']\<rparr>,
           NotifierOnNewEvent
            \<lparr>ev_type = MessageEvent_TYPE, ev_room_id = ''r1'', ev_user_id = ''_homeserver_'',
             ev_target_user_id = None, ev_membership = None, ev_msg_id = Some ''m1000'',
             ev_content = [(''msgtype'', JStr ''sy.text''), (''body'', JStr ''bob:blue joined the room.''),
                           (''hsob_ts'', JInt 1000)],
             ev_destinations = [''red'', ''blue'']\<rparr> 0,
           Unlock ''r1'']\<rparr>)"
    unfolding g1 [THEN conjunct1] by (simp add: run_defs)
  have 4: "fst (change_membership ?hs ?j True True w0) = Inr ?j'"
    unfolding g2 by (simp add: run_defs)
  have 5: "new_calls ?wj (snd (change_membership ?hs ?j True True w0)) =
      [Lock ''r1'',
       PersistEvent
        \<lparr>ev_type = MessageEvent_TYPE, ev_room_id = ''r1'', ev_user_id = ''_homeserver_'',
         ev_target_user_id = None, ev_membership = None, ev_msg_id = Some ''m1001'',
         ev_content = [(''msgtype'', JStr ''sy.text''), (''body'', JStr ''alice:red joined the room.''),
                       (''hsob_ts'', JInt 1001)],
         ev_destinations = []\<rparr>,
       GetJoinedHostsForRoom ''r1'',
       FederationHandleNewEvent
        \<lparr>ev_type = MessageEvent_TYPE, ev_room_id = ''r1'', ev_user_id = ''_homeserver_'',
         ev_target_user_id = None, ev_membership = None, ev_msg_id = Some ''m1001'',
         ev_content = [(''msgtype'', JStr ''sy.text''), (''body'', JStr ''alice:red joined the room.''),
                       (''hsob_ts'', JInt 1001)],
         ev_destinations = [''red'', ''blue'']\<rparr>,
       NotifierOnNewEvent
        \<lparr>ev_type = MessageEvent_TYPE, ev_room_id = ''r1'', ev_user_id = ''_homeserver_'',
         ev_target_user_id = None, ev_membership = None, ev_msg_id = Some ''m1001'',
         ev_content = [(''msgtype'', JStr ''sy.text''), (''body'', JStr ''alice:red joined the room.''),
                       (''hsob_ts'', JInt 1001)],
         ev_destinations = [''red'', ''blue'']\<rparr> 1,
       Unlock ''r1'']"
    unfolding g2 by (simp add: run_defs new_calls_def)
  from 1 f 2 t 3 g1 [THEN conjunct2, THEN conjunct1] fj tj 4 5 n show ?thesis
    by simp
qed


subsection \<open>Allocating a room identifier\<close>

text \<open>Every pass through the \<^verbatim>\<open>try\<close> generates exactly one identifier.\<close>

lemma try_gen_room_id_calls:
  assumes "try_gen_room_id hs user config w = (r, w')"
  shows "\<exists>ext. trace w' = trace w @ ext \<and> length (filter is_random_string ext) = 1"
  using assms unfolding try_gen_room_id_def visibility_is_public_def
  by (auto simp: hdefs split: sum.splits prod.splits option.splits)

lemma failed_attempts_calls:
  "failed_attempts hs user config n w = Some wn \<Longrightarrow>
     \<exists>ext. trace wn = trace w @ ext \<and> length (filter is_random_string ext) = n"
proof (induction n arbitrary: w)
  case 0
  then show ?case by simp
next
  case (Suc n)
  obtain r w1 where t: "try_gen_room_id hs user config w = (r, w1)"
    by (cases "try_gen_room_id hs user config w")
  with Suc.prems have f: "failed_attempts hs user config n w1 = Some wn"
    by (auto split: sum.splits error.splits)
  from try_gen_room_id_calls [OF t] obtain e1 where
    1: "trace w1 = trace w @ e1" "length (filter is_random_string e1) = 1" by blast
  from Suc.IH [OF f] obtain e2 where
    2: "trace wn = trace w1 @ e2" "length (filter is_random_string e2) = n" by blast
  from 1 2 have "trace wn = trace w @ (e1 @ e2) \<and> length (filter is_random_string (e1 @ e2)) = Suc n"
    by simp
  then show ?case by blast
qed

lemma create_room_loop_after_failures:
  "failed_attempts hs user config n w = Some wn \<Longrightarrow> attempts + n \<le> 5 \<Longrightarrow>
     create_room_loop hs user config attempts w = create_room_loop hs user config (attempts + n) wn"
proof (induction n arbitrary: w attempts)
  case 0
  then show ?case by simp
next
  case (Suc n)
  obtain r w1 where t: "try_gen_room_id hs user config w = (r, w1)"
    by (cases "try_gen_room_id hs user config w")
  with Suc.prems(1) obtain c m where r: "r = Inl (StoreError c m)"
    and f: "failed_attempts hs user config n w1 = Some wn"
    by (auto split: sum.splits error.splits)
  from Suc.prems(2) have "attempts < 5" "Suc attempts + n \<le> 5" by simp_all
  with Suc.IH [OF f, of "Suc attempts"] t r show ?case
    by (subst create_room_loop.simps) simp
qed

text \<open>
  Claim C4. \<^verbatim>\<open>create_room\<close> without a room identifier (\<^verbatim>\<open>None\<close> or the empty
  string). If the first \<open>j < 5\<close> passes each end in a \<^verbatim>\<open>StoreError\<close> and the next one
  stores the non-empty identifier \<open>g\<close> it generated, then \<open>g\<close> is the identifier of the
  room: exactly \<open>j + 1\<close> identifiers were generated, the creator's join is run on \<open>g\<close>,
  and when that join returns, \<^verbatim>\<open>create_room\<close> returns \<open>g\<close>. If five passes each end in
  a \<^verbatim>\<open>StoreError\<close>, \<^verbatim>\<open>create_room\<close> raises
  \<^verbatim>\<open>StoreError(500, "Couldn't generate a room ID.")\<close> in the world those five passes
  left: five identifiers were generated, no sixth is tried, and no join is attempted.
\<close>

theorem create_room_bounded_retry:
  "(room_id0 = None \<or> room_id0 = Some []) \<longrightarrow>
     (j < 5 \<and> failed_attempts hs user config j w = Some wj
        \<and> try_gen_room_id hs user config wj = (Inr g, w1) \<and> g \<noteq> []
        \<and> change_membership hs (join_event g user) True False w1 = (Inr ev, w2) \<longrightarrow>
      create_room hs user room_id0 config w = (Inr g, w2)
      \<and> length (filter is_random_string (new_calls w w1)) = Suc j)
   \<and> (failed_attempts hs user config 5 w = Some w5 \<longrightarrow>
      create_room hs user room_id0 config w =
        (Inl (StoreError 500 ''Couldn't generate a room ID.''), w5)
      \<and> length (filter is_random_string (new_calls w w5)) = 5)"
proof (intro impI conjI)
  assume a: "room_id0 = None \<or> room_id0 = Some []"
  {
    assume h: "j < 5 \<and> failed_attempts hs user config j w = Some wj
        \<and> try_gen_room_id hs user config wj = (Inr g, w1) \<and> g \<noteq> []
        \<and> change_membership hs (join_event g user) True False w1 = (Inr ev, w2)"
    then have "create_room_loop hs user config 0 w = create_room_loop hs user config j wj"
      using create_room_loop_after_failures [of hs user config j w wj 0] by simp
    also from h have "\<dots> = (Inr (Some g), w1)"
      by (subst create_room_loop.simps) simp
    finally have l: "create_room_loop hs user config 0 w = (Inr (Some g), w1)" .
    from h obtain c cs where g: "g = c # cs" by (cases g) auto
    from a l h show "create_room hs user room_id0 config w = (Inr g, w2)"
      unfolding g by (auto simp: create_room_def and_then_def succeed_def)
    from h failed_attempts_calls [of hs user config j w wj]
      try_gen_room_id_calls [of hs user config wj "Inr g" w1]
    show "length (filter is_random_string (new_calls w w1)) = Suc j"
      by (auto simp: new_calls_def)
  }
  {
    assume h: "failed_attempts hs user config 5 w = Some w5"
    then have "create_room_loop hs user config 0 w = create_room_loop hs user config 5 w5"
      using create_room_loop_after_failures [of hs user config 5 w w5 0] by simp
    also have "\<dots> = (Inr None, w5)"
      by (subst create_room_loop.simps) simp
    finally have l: "create_room_loop hs user config 0 w = (Inr None, w5)" .
    from a l show "create_room hs user room_id0 config w =
        (Inl (StoreError 500 ''Couldn't generate a room ID.''), w5)"
      by (auto simp: create_room_def and_then_def raise_def)
    from h failed_attempts_calls [of hs user config 5 w w5]
    show "length (filter is_random_string (new_calls w w5)) = 5"
      by (auto simp: new_calls_def)
  }
qed


text \<open>Evaluating the allocation loop on numerals.\<close>

lemma failed_attempts_numeral:
  "failed_attempts hs user config (numeral k) w =
     (case try_gen_room_id hs user config w of
        (Inl (StoreError c m), w') \<Rightarrow> failed_attempts hs user config (pred_numeral k) w'
      | _ \<Rightarrow> None)"
  by (simp add: numeral_eq_Suc)

lemma replicate_numeral_Cons: "replicate (numeral k) x = x # replicate (pred_numeral k) x"
  by (simp add: numeral_eq_Suc)

lemma upt_zero_numeral: "[0..<numeral k] = [0..<pred_numeral k] @ [pred_numeral k]"
  by (simp add: numeral_eq_Suc)

lemmas room_run_defs = failed_attempts_numeral replicate_numeral_Cons upt_zero_numeral
  try_gen_room_id_def visibility_is_public_def after_attempts_def run_defs

theorem create_room_bounded_retry_witness:
  "failed_attempts (test_hs None None True 4) ''alice:red'' [(''visibility'', JStr ''public'')] 4 w0
     = Some (after_attempts 4)
   \<and> try_gen_room_id (test_hs None None True 4) ''alice:red'' [(''visibility'', JStr ''public'')]
       (after_attempts 4) = (Inr ''444444444444444444'', after_attempts 5)
   \<and> fst (change_membership (test_hs None None True 4)
            (join_event ''444444444444444444'' ''alice:red'') True False (after_attempts 5)) =
       Inr ((join_event ''444444444444444444'' ''alice:red'')\<lparr>ev_destinations := [''blue'', ''red'']\<rparr>)
   \<and> fst (create_room (test_hs None None True 4) ''alice:red'' None
            [(''visibility'', JStr ''public'')] w0) = Inr ''444444444444444444''
   \<and> length (filter is_random_string (new_calls w0 (after_attempts 5))) = 5
   \<and> failed_attempts (test_hs None None True 5) ''alice:red'' [(''visibility'', JStr ''public'')] 5 w0
     = Some (after_attempts 5)
   \<and> create_room (test_hs None None True 5) ''alice:red'' None [(''visibility'', JStr ''public'')] w0 =
       (Inl (StoreError 500 ''Couldn't generate a room ID.''), after_attempts 5)"
proof -
  let ?h4 = "test_hs None None True 4"
  let ?h5 = "test_hs None None True 5"
  let ?cfg = "[(''visibility'', JStr ''public'')]"
  let ?g = "''444444444444444444''"
  let ?ev = "(join_event ?g ''alice:red'')\<lparr>ev_destinations := [''blue'', ''red'']\<rparr>"
  let ?w2 = "snd (change_membership ?h4 (join_event ?g ''alice:red'') True False (after_attempts 5))"
  have a: "failed_attempts ?h4 ''alice:red'' ?cfg 4 w0 = Some (after_attempts 4)"
    by (simp add: room_run_defs)
  have b: "try_gen_room_id ?h4 ''alice:red'' ?cfg (after_attempts 4) = (Inr ?g, after_attempts 5)"
    by (simp add: room_run_defs)
  have c: "fst (change_membership ?h4 (join_event ?g ''alice:red'') True False (after_attempts 5)) = Inr ?ev"
    by (simp add: room_run_defs)
  then have c': "change_membership ?h4 (join_event ?g ''alice:red'') True False (after_attempts 5) = (Inr ?ev, ?w2)"
    by (simp add: prod_eq_iff)
  have d: "failed_attempts ?h5 ''alice:red'' ?cfg 5 w0 = Some (after_attempts 5)"
    by (simp add: room_run_defs)
  have j: "(4::nat) < 5" "?g \<noteq> []" "(None :: string option) = None \<or> (None :: string option) = Some []"
    by simp_all
  note t4 = create_room_bounded_retry
    [where ?room_id0.0 = None and j = 4 and hs = ?h4 and user = "''alice:red''" and config = ?cfg
       and w = w0 and wj = "after_attempts 4" and g = ?g and ?w1.0 = "after_attempts 5"
       and ev = ?ev and ?w2.0 = ?w2, rule_format, OF j(3), THEN conjunct1, rule_format]
  note t5 = create_room_bounded_retry
    [where ?room_id0.0 = None and hs = ?h5 and user = "''alice:red''" and config = ?cfg
       and w = w0 and ?w5.0 = "after_attempts 5", rule_format, OF j(3), THEN conjunct2, rule_format, OF d]
  from t4 [OF conjI [OF j(1) conjI [OF a conjI [OF b conjI [OF j(2) c']]]]]
  have 1: "fst (create_room ?h4 ''alice:red'' None ?cfg w0) = Inr ?g"
    and 2: "length (filter is_random_string (new_calls w0 (after_attempts 5))) = 5"
    by simp_all
  from a b c 1 2 d t5 [THEN conjunct1] show ?thesis
    by blast
qed

end
